theory Spec2Isabelle
  imports Main
begin

section \<open>The credential lifecycle manager of graph-mcp\<close>

text \<open>
  A shallow embedding of the two classes of the authentication module,
  \<^verbatim>\<open>EncryptionManager\<close> and \<^verbatim>\<open>AuthManager\<close>, and of the constants of
  \<^verbatim>\<open>config/config.js\<close> they read.

  Conventions.
  \<^item> Every method is a function from the state before the call to a result and the
    state after it. A method that throws returns \<open>Inl\<close> of the thrown error; the state
    it returns holds every assignment made before the throw.
  \<^item> The state holds the fields of the manager and the part of the world the code
    touches: the files, the clock, the machine identity, the random source, the
    requests sent so far and the lines written to the console.
  \<^item> A Node \<^verbatim>\<open>Buffer\<close> and a JavaScript string are both a \<open>string\<close>: a list of
    8-bit characters (a text is its UTF-8 encoding).
  \<^item> JavaScript numbers that hold timestamps and durations are \<open>int\<close>; the additions
    and multiplications of the code are exact on them (they stay far below \<open>2^53\<close>).
  \<^item> The values of \<^verbatim>\<open>this.tokens\<close> and \<^verbatim>\<open>this.deviceCode\<close> are typed records; a
    JavaScript \<^verbatim>\<open>null\<close> is \<open>None\<close>. The payload that is stored in a file is such a
    record or \<^verbatim>\<open>null\<close>. The object \<^verbatim>\<open>{encrypted, iv, tag}\<close> is a typed record as well: a
    stored text that is JSON of another shape counts as a text that \<^verbatim>\<open>JSON.parse\<close>
    rejects (in the code it fails one step later, in \<^verbatim>\<open>decrypt\<close>, inside the same
    \<^verbatim>\<open>try\<close> block of \<^verbatim>\<open>loadEncryptedData\<close>).
  \<^item> The functions of Node and of its libraries that the code calls (key derivation,
    AES-256-GCM, \<^verbatim>\<open>JSON.stringify\<close>, \<^verbatim>\<open>JSON.parse\<close>) are the fields of a record
    \<open>node\<close> that every method takes as its first argument.
  \<^item> An asynchronous method that is awaited runs from its call to its completion in
    one step. The call \<^verbatim>\<open>this.pollForTokenInBackground()\<close> in \<^verbatim>\<open>authenticate\<close> is not
    awaited: it runs the method as far as its first suspension
    (\<open>pollForTokenInBackground_called\<close>), the task is counted in the state (\<open>detached\<close>),
    and what the task does after \<^verbatim>\<open>authenticate\<close> has thrown is no part of the state
    that \<^verbatim>\<open>authenticate\<close> returns.
  \<^item> Where the code writes \<^verbatim>\<open>error.stack || error.message\<close> to the console, the
    model writes the message.
\<close>

subsection \<open>Errors\<close>

type_synonym buffer = string
type_synonym path = string

text \<open>
  A thrown JavaScript error object: its \<^verbatim>\<open>message\<close>, its \<^verbatim>\<open>code\<close> (set by the file
  system), and the two fields of an HTTP error response that the code reads,
  \<^verbatim>\<open>error.response?.data?.error\<close> and \<^verbatim>\<open>error.response?.data?.error_description\<close>.
\<close>

record js_error =
  message :: string
  code :: "string option"
  response_error :: "string option"
  response_error_description :: "string option"

text \<open>\<^verbatim>\<open>new Error(m)\<close>\<close>

definition Error :: "string \<Rightarrow> js_error" where
  "Error m = \<lparr>message = m, code = None, response_error = None,
     response_error_description = None\<rparr>"

text \<open>An error of the file system: \<^verbatim>\<open>ENOENT: no such file or directory, open 'p'\<close>.\<close>

definition SystemError :: "string \<Rightarrow> string \<Rightarrow> string \<Rightarrow> path \<Rightarrow> js_error" where
  "SystemError c description syscall p =
     \<lparr>message = c @ '': '' @ description @ '', '' @ syscall @ '' '' @ [CHR 0x27] @ p @ [CHR 0x27],
      code = Some c, response_error = None, response_error_description = None\<rparr>"

text \<open>\<^verbatim>\<open>a || b\<close> on an optional string: \<^verbatim>\<open>undefined\<close> and the empty string are falsy.\<close>

fun or_else :: "string option \<Rightarrow> string \<Rightarrow> string" where
  "or_else None d = d"
| "or_else (Some v) d = (if v = [] then d else v)"

text \<open>\<^verbatim>\<open>s.includes(pat)\<close>\<close>

fun starts_with :: "string \<Rightarrow> string \<Rightarrow> bool" where
  "starts_with s [] = True"
| "starts_with [] (p # ps) = False"
| "starts_with (c # cs) (p # ps) = (c = p \<and> starts_with cs ps)"

fun string_includes :: "string \<Rightarrow> string \<Rightarrow> bool" where
  "string_includes [] pat = (pat = [])"
| "string_includes (c # cs) pat = (starts_with (c # cs) pat \<or> string_includes cs pat)"

text \<open>\<^verbatim>\<open>String(n)\<close> for a natural number: its decimal notation.\<close>

function decimal :: "nat \<Rightarrow> string" where
  "decimal n =
     (if n < 10 then [''0123456789'' ! n]
      else decimal (n div 10) @ [''0123456789'' ! (n mod 10)])"
  by pat_completeness auto
termination
  by (relation "measure (\<lambda>n. n)") auto

declare decimal.simps [simp del]

subsection \<open>Hexadecimal encoding of buffers\<close>

text \<open>
  \<^verbatim>\<open>buf.toString('hex')\<close> writes two lower-case digits for each byte;
  \<^verbatim>\<open>Buffer.from(s, 'hex')\<close> reads pairs of digits of either case and stops at the
  first pair that is not hexadecimal.
\<close>

definition hex_digit :: "nat \<Rightarrow> char" where
  "hex_digit n = ''0123456789abcdef'' ! n"

definition hex_value :: "char \<Rightarrow> nat option" where
  "hex_value c = map_of (zip ''0123456789abcdefABCDEF'' ([0..<16] @ [10..<16])) c"

definition to_hex :: "buffer \<Rightarrow> string" where
  "to_hex b = concat (map (\<lambda>c. [hex_digit (of_char c div 16), hex_digit (of_char c mod 16)]) b)"

fun from_hex :: "string \<Rightarrow> buffer" where
  "from_hex (h # l # cs) =
     (case (hex_value h, hex_value l) of
        (Some x, Some y) \<Rightarrow> char_of (16 * x + y) # from_hex cs
      | _ \<Rightarrow> [])"
| "from_hex cs = []"

subsection \<open>Data\<close>

text \<open>The body of a successful answer of the token endpoint.\<close>

record token_response =
  access_token :: string
  refresh_token :: "string option"
  expires_in :: int
  token_type :: string

text \<open>\<^verbatim>\<open>this.tokens\<close>: the fields of the answer and \<^verbatim>\<open>expires_at\<close>.\<close>

record token_set = token_response +
  expires_at :: int

text \<open>
  \<^verbatim>\<open>this.deviceCode\<close>, which has the fields of the answer of the device code endpoint.
\<close>

record device_authorization =
  device_code :: string
  user_code :: string
  verification_uri :: string
  device_expires_in :: int
  interval :: int

text \<open>The object \<^verbatim>\<open>{encrypted, iv, tag}\<close> that \<^verbatim>\<open>encrypt\<close> returns, three hex strings.\<close>

record encrypted_data =
  encrypted :: string
  iv :: string
  tag :: string

text \<open>The requests that the code sends with \<^verbatim>\<open>axios.post\<close>.\<close>

datatype request =
    DeviceCodeRequest
  | DeviceCodeGrant string
  | RefreshTokenGrant string

text \<open>The outcome of a request, and the time that passed until it arrived.\<close>

record 'a reply =
  latency :: nat
  outcome :: "js_error + 'a"

text \<open>
  What the file system has at a path that is not a directory: a file with its text, or
  an entry that the process may neither read nor write.
\<close>

datatype entry = Text string | NoAccess

text \<open>
  The state. \<open>dirs\<close> are the directories that exist; \<open>clock\<close> is what \<^verbatim>\<open>Date.now()\<close>
  returns; \<open>machine_id\<close> is the result of \<^verbatim>\<open>machineId()\<close>, on the left the message of
  its rejection; \<open>entropy n\<close> is what the \<open>n\<close>-th call of \<^verbatim>\<open>crypto.randomBytes(16)\<close>
  returns and \<open>drawn\<close> counts the calls; \<open>requests\<close> are the requests that
  \<^verbatim>\<open>axios.post\<close> has been called with so far; \<open>detached\<close> counts the polls started and
  not awaited; \<open>console\<close> holds the lines
  written to the standard output and the standard error, oldest first.
\<close>

record state =
  \<comment> \<open>the fields of \<^verbatim>\<open>EncryptionManager\<close> and \<^verbatim>\<open>AuthManager\<close>\<close>
  machineKey :: "buffer option"
  tokens :: "token_set option"
  deviceCode :: "device_authorization option"
  \<comment> \<open>the world\<close>
  files :: "path \<rightharpoonup> entry"
  dirs :: "path set"
  clock :: int
  machine_id :: "string + string"
  entropy :: "nat \<Rightarrow> buffer"
  drawn :: nat
  requests :: "request list"
  detached :: nat
  console :: "string list"

subsection \<open>Node and its libraries\<close>

text \<open>
  \<^verbatim>\<open>JSON.stringify\<close> and \<^verbatim>\<open>JSON.parse\<close> at one type of values; \<open>parse\<close> returns the
  message of the \<^verbatim>\<open>SyntaxError\<close> on the left.
\<close>

record 'a json =
  stringify :: "'a \<Rightarrow> string"
  parse :: "string \<Rightarrow> string + 'a"

text \<open>
  \<^item> \<open>pbkdf2Sync m\<close> is \<^verbatim>\<open>crypto.pbkdf2Sync(m, 'graph-mcp-salt', 100000, 32, 'sha256')\<close>;
  \<^item> \<open>gcm_encrypt key iv plaintext\<close> is the ciphertext and the authentication tag
    of \<^verbatim>\<open>createCipheriv('aes-256-gcm', key, iv)\<close>;
  \<^item> \<open>gcm_decrypt key iv tag ciphertext\<close> is the plaintext of
    \<^verbatim>\<open>createDecipheriv('aes-256-gcm', key, iv)\<close> after \<^verbatim>\<open>setAuthTag(tag)\<close>, or the
    message of the error that one of its calls throws;
  \<^item> \<open>gcm_setup key iv tag\<close> is the message of the error that
    \<^verbatim>\<open>createDecipheriv('aes-256-gcm', key, iv)\<close> or \<^verbatim>\<open>setAuthTag(tag)\<close> throws, if one
    does: the two calls that come before the ciphertext is looked at;
  \<^item> \<open>json_tokens\<close> and \<open>json_device\<close> are JSON at the types of the two payloads, a
    record or \<^verbatim>\<open>null\<close>;
  \<^item> \<open>json_string\<close> and \<open>json_number\<close> are \<^verbatim>\<open>JSON.stringify\<close> on a string and on a
    number.
\<close>

record node =
  pbkdf2Sync :: "string \<Rightarrow> buffer"
  gcm_encrypt :: "buffer \<Rightarrow> buffer \<Rightarrow> buffer \<Rightarrow> buffer \<times> buffer"
  gcm_decrypt :: "buffer \<Rightarrow> buffer \<Rightarrow> buffer \<Rightarrow> buffer \<Rightarrow> string + buffer"
  gcm_setup :: "buffer \<Rightarrow> buffer \<Rightarrow> buffer \<Rightarrow> string option"
  json_blob :: "encrypted_data json"
  json_tokens :: "token_set option json"
  json_device :: "device_authorization option json"
  json_string :: "string \<Rightarrow> string"
  json_number :: "int \<Rightarrow> string"

subsection \<open>Configuration\<close>

definition DATA_DIR :: path where
  "DATA_DIR = ''data''"

definition TOKEN_FILE :: path where
  "TOKEN_FILE = ''data/tokens.enc''"

definition DEVICE_FILE :: path where
  "DEVICE_FILE = ''data/device.enc''"

definition TOKEN_EXPIRY_BUFFER :: int where
  "TOKEN_EXPIRY_BUFFER = 5 * 60 * 1000"

definition DEVICE_CODE_POLL_INTERVAL :: int where
  "DEVICE_CODE_POLL_INTERVAL = 5000"

definition MAX_POLL_ATTEMPTS :: nat where
  "MAX_POLL_ATTEMPTS = 180"

subsection \<open>The world\<close>

definition write_line :: "string \<Rightarrow> state \<Rightarrow> state" where
  "write_line l s = s\<lparr>console := console s @ [l]\<rparr>"

text \<open>
  The directory of a path: what comes before its last \<^verbatim>\<open>/\<close>. It is empty for a name in the
  working directory, which exists.
\<close>

definition dirname :: "path \<Rightarrow> path" where
  "dirname p = rev (drop 1 (dropWhile (\<lambda>c. c \<noteq> CHR ''/'') (rev p)))"

text \<open>The directories above a path, nearest first, up to the working directory.\<close>

function ancestors :: "path \<Rightarrow> path list" where
  "ancestors p = (if dirname p = [] then [] else dirname p # ancestors (dirname p))"
  by pat_completeness auto
termination
proof (relation "measure length")
  show "wf (measure length)" by simp
next
  fix p :: path
  assume "dirname p \<noteq> []"
  moreover have "length (dropWhile (\<lambda>c. c \<noteq> CHR ''/'') (rev p)) \<le> length p"
    using length_dropWhile_le [of "\<lambda>c. c \<noteq> CHR ''/''" "rev p"] by simp
  ultimately have "length (dirname p) < length p"
    by (cases "dropWhile (\<lambda>c. c \<noteq> CHR ''/'') (rev p)") (simp_all add: dirname_def)
  then show "(dirname p, p) \<in> measure length" by simp
qed

declare ancestors.simps [simp del]

text \<open>A component of the path above \<open>p\<close> is not a directory but a file.\<close>

definition below_a_file :: "path \<Rightarrow> state \<Rightarrow> bool" where
  "below_a_file p s = (\<exists>a \<in> set (ancestors p). files s a \<noteq> None)"

text \<open>
  \<^verbatim>\<open>fs.readFile(p, 'utf8')\<close>, with the errors of a POSIX file system. It fails with
  \<^verbatim>\<open>ENOTDIR\<close> when a component of the path is a file, with \<^verbatim>\<open>EISDIR\<close> when \<open>p\<close> is a
  directory, with \<^verbatim>\<open>ENOENT\<close> when there is nothing at \<open>p\<close>, and with \<^verbatim>\<open>EACCES\<close> on an entry
  without access.
\<close>

definition readFile :: "path \<Rightarrow> state \<Rightarrow> js_error + string" where
  "readFile p s =
     (if below_a_file p s
      then Inl (SystemError ''ENOTDIR'' ''not a directory'' ''open'' p)
      else if p \<in> dirs s
      then Inl \<lparr>message = ''EISDIR: illegal operation on a directory, read'',
                code = Some ''EISDIR'', response_error = None,
                response_error_description = None\<rparr>
      else (case files s p of
              None \<Rightarrow> Inl (SystemError ''ENOENT'' ''no such file or directory'' ''open'' p)
            | Some NoAccess \<Rightarrow> Inl (SystemError ''EACCES'' ''permission denied'' ''open'' p)
            | Some (Text t) \<Rightarrow> Inr t))"

text \<open>
  \<^verbatim>\<open>fs.writeFile(p, t, 'utf8')\<close>. It fails like \<^verbatim>\<open>readFile\<close> on a path below a file, on a
  directory and on an entry without access, and with \<^verbatim>\<open>ENOENT\<close> when the directory of
  \<open>p\<close> does not exist; a failed call leaves the files as they were.
\<close>

definition writeFile :: "path \<Rightarrow> string \<Rightarrow> state \<Rightarrow> (js_error + unit) \<times> state" where
  "writeFile p t s =
     (if below_a_file p s
      then (Inl (SystemError ''ENOTDIR'' ''not a directory'' ''open'' p), s)
      else if p \<in> dirs s
      then (Inl (SystemError ''EISDIR'' ''illegal operation on a directory'' ''open'' p), s)
      else if files s p = Some NoAccess
      then (Inl (SystemError ''EACCES'' ''permission denied'' ''open'' p), s)
      else if dirname p \<noteq> [] \<and> dirname p \<notin> dirs s
      then (Inl (SystemError ''ENOENT'' ''no such file or directory'' ''open'' p), s)
      else (Inr (), s\<lparr>files := (files s)(p \<mapsto> Text t)\<rparr>))"

text \<open>
  \<^verbatim>\<open>fs.mkdir(p, { recursive: true })\<close>: no error when the directory exists, and the
  directories above it are made as well.
\<close>

definition mkdir :: "path \<Rightarrow> state \<Rightarrow> (js_error + unit) \<times> state" where
  "mkdir p s =
     (if below_a_file p s
      then (Inl (SystemError ''ENOTDIR'' ''not a directory'' ''mkdir'' p), s)
      else if files s p \<noteq> None
      then (Inl (SystemError ''EEXIST'' ''file already exists'' ''mkdir'' p), s)
      else (Inr (), s\<lparr>dirs := dirs s \<union> set (p # ancestors p)\<rparr>))"

definition randomBytes :: "state \<Rightarrow> buffer \<times> state" where
  "randomBytes s = (entropy s (drawn s), s\<lparr>drawn := Suc (drawn s)\<rparr>)"

text \<open>\<^verbatim>\<open>await axios.post(...)\<close>: the call, and the wait for the answer \<open>r\<close>.\<close>

definition axios_post :: "request \<Rightarrow> 'a reply \<Rightarrow> state \<Rightarrow> (js_error + 'a) \<times> state" where
  "axios_post req r s =
     (outcome r, s\<lparr>requests := requests s @ [req], clock := clock s + int (latency r)\<rparr>)"

text \<open>\<^verbatim>\<open>await new Promise(resolve => setTimeout(resolve, ms))\<close>\<close>

definition sleep :: "int \<Rightarrow> state \<Rightarrow> state" where
  "sleep ms s = s\<lparr>clock := clock s + ms\<rparr>"

subsection \<open>EncryptionManager\<close>

definition getMachineKey :: "node \<Rightarrow> state \<Rightarrow> (js_error + buffer) \<times> state" where
  "getMachineKey N s =
     (case machineKey s of
        Some key \<Rightarrow> (Inr key, s)
      | None \<Rightarrow>
          (case machine_id s of
             Inl m \<Rightarrow> (Inl (Error (''Failed to generate machine key: '' @ m)), s)
           | Inr machineIdHash \<Rightarrow>
               (Inr (pbkdf2Sync N machineIdHash),
                s\<lparr>machineKey := Some (pbkdf2Sync N machineIdHash)\<rparr>)))"

definition encrypt :: "node \<Rightarrow> 'a json \<Rightarrow> 'a \<Rightarrow> state \<Rightarrow> (js_error + encrypted_data) \<times> state" where
  "encrypt N J data s =
     (case getMachineKey N s of
        (Inl e, s1) \<Rightarrow>
          (Inl (Error (''Encryption failed: '' @ message e)),
           write_line (''[ENCRYPTION ERROR] Data: '' @ stringify J data)
             (write_line (''[ENCRYPTION ERROR] Failed to encrypt data: '' @ message e) s1))
      | (Inr key, s1) \<Rightarrow>
          (case randomBytes s1 of
             (nonce, s2) \<Rightarrow>
               (case gcm_encrypt N key nonce (stringify J data) of
                  (ciphertext, t) \<Rightarrow>
                    (Inr \<lparr>encrypted = to_hex ciphertext, iv = to_hex nonce, tag = to_hex t\<rparr>,
                     s2))))"

definition decrypt_failed :: "node \<Rightarrow> encrypted_data \<Rightarrow> string \<Rightarrow> state \<Rightarrow> (js_error + 'a) \<times> state" where
  "decrypt_failed N encryptedData m s =
     (Inl (Error (''Decryption failed: '' @ m)),
      write_line (''[DECRYPTION ERROR] EncryptedData: '' @ stringify (json_blob N) encryptedData)
        (write_line (''[DECRYPTION ERROR] Failed to decrypt data: '' @ m) s))"

text \<open>
  The message of the \<^verbatim>\<open>TypeError\<close> with which \<^verbatim>\<open>decipher.update(encrypted, 'hex', 'utf8')\<close>
  rejects a string with an odd number of characters.
\<close>

definition invalid_hex :: "string \<Rightarrow> string" where
  "invalid_hex t =
     ''The argument '' @ [CHR 0x27] @ ''encoding'' @ [CHR 0x27]
       @ '' is invalid for data of length '' @ decimal (length t)
       @ ''. Received '' @ [CHR 0x27] @ ''hex'' @ [CHR 0x27]"

text \<open>
  \<^verbatim>\<open>decrypt\<close>. The nonce and the tag are decoded with \<^verbatim>\<open>Buffer.from(..., 'hex')\<close>. The
  ciphertext is passed as a string to \<^verbatim>\<open>decipher.update\<close>, which throws when its length
  is odd (after \<^verbatim>\<open>createDecipheriv\<close> and \<^verbatim>\<open>setAuthTag\<close> have been called) and decodes it
  like \<^verbatim>\<open>Buffer.from\<close> when it is even.
\<close>

definition decrypt :: "node \<Rightarrow> 'a json \<Rightarrow> encrypted_data \<Rightarrow> state \<Rightarrow> (js_error + 'a) \<times> state" where
  "decrypt N J encryptedData s =
     (case getMachineKey N s of
        (Inl e, s1) \<Rightarrow> decrypt_failed N encryptedData (message e) s1
      | (Inr key, s1) \<Rightarrow>
          (if odd (length (encrypted encryptedData))
           then
             (case gcm_setup N key (from_hex (iv encryptedData)) (from_hex (tag encryptedData)) of
                Some m \<Rightarrow> decrypt_failed N encryptedData m s1
              | None \<Rightarrow> decrypt_failed N encryptedData (invalid_hex (encrypted encryptedData)) s1)
           else
             (case gcm_decrypt N key (from_hex (iv encryptedData)) (from_hex (tag encryptedData))
                     (from_hex (encrypted encryptedData)) of
                Inl m \<Rightarrow> decrypt_failed N encryptedData m s1
              | Inr decrypted \<Rightarrow>
                  (case parse J decrypted of
                     Inl m \<Rightarrow> decrypt_failed N encryptedData m s1
                   | Inr v \<Rightarrow> (Inr v, s1)))))"

definition save_failed :: "path \<Rightarrow> js_error \<Rightarrow> state \<Rightarrow> (js_error + unit) \<times> state" where
  "save_failed filePath e s =
     (Inl (Error (''Failed to save encrypted data: '' @ message e)),
      write_line (''[SAVE ERROR] Failed to save encrypted data to '' @ filePath @ '': '' @ message e) s)"

definition saveEncryptedData :: "node \<Rightarrow> 'a json \<Rightarrow> path \<Rightarrow> 'a \<Rightarrow> state \<Rightarrow> (js_error + unit) \<times> state" where
  "saveEncryptedData N J filePath data s =
     (case encrypt N J data s of
        (Inl e, s1) \<Rightarrow> save_failed filePath e s1
      | (Inr encryptedData, s1) \<Rightarrow>
          (case writeFile filePath (stringify (json_blob N) encryptedData) s1 of
             (Inl e, s2) \<Rightarrow> save_failed filePath e s2
           | (Inr u, s2) \<Rightarrow> (Inr (), s2)))"

text \<open>
  The \<^verbatim>\<open>catch\<close> block of \<^verbatim>\<open>loadEncryptedData\<close>; \<open>None\<close> is the \<^verbatim>\<open>null\<close> it returns.
  \<^verbatim>\<open>loadEncryptedData\<close> returns what \<^verbatim>\<open>decrypt\<close> returns, which is \<^verbatim>\<open>null\<close> when the stored
  payload is.
\<close>

definition load_failed :: "path \<Rightarrow> js_error \<Rightarrow> state \<Rightarrow> (js_error + 'a option) \<times> state" where
  "load_failed filePath e s =
     (if code e = Some ''ENOENT'' then (Inr None, s)
      else (Inl (Error (''Failed to load encrypted data: '' @ message e)),
            write_line (''[LOAD ERROR] Failed to load encrypted data from '' @ filePath @ '': ''
              @ message e) s))"

definition loadEncryptedData ::
  "node \<Rightarrow> 'a option json \<Rightarrow> path \<Rightarrow> state \<Rightarrow> (js_error + 'a option) \<times> state" where
  "loadEncryptedData N J filePath s =
     (case readFile filePath s of
        Inl e \<Rightarrow> load_failed filePath e s
      | Inr fileContent \<Rightarrow>
          (case parse (json_blob N) fileContent of
             Inl m \<Rightarrow> load_failed filePath (Error m) s
           | Inr encryptedData \<Rightarrow>
               (case decrypt N J encryptedData s of
                  (Inl e, s1) \<Rightarrow> load_failed filePath e s1
                | (Inr v, s1) \<Rightarrow> (Inr v, s1))))"

subsection \<open>AuthManager\<close>

text \<open>The truth value of an optional string: \<^verbatim>\<open>undefined\<close> and \<^verbatim>\<open>''\<close> are falsy.\<close>

fun truthy :: "string option \<Rightarrow> bool" where
  "truthy None = False"
| "truthy (Some v) = (v \<noteq> [])"

definition loadTokens :: "node \<Rightarrow> state \<Rightarrow> state" where
  "loadTokens N s =
     (case loadEncryptedData N (json_tokens N) TOKEN_FILE s of
        (Inr v, s1) \<Rightarrow>
          (if v \<noteq> None then write_line ''Loaded existing tokens'' (s1\<lparr>tokens := v\<rparr>)
           else s1\<lparr>tokens := v\<rparr>)
      | (Inl e, s1) \<Rightarrow>
          (write_line ''No existing tokens found or failed to load'' s1)\<lparr>tokens := None\<rparr>)"

definition loadDeviceCode :: "node \<Rightarrow> state \<Rightarrow> state" where
  "loadDeviceCode N s =
     (case loadEncryptedData N (json_device N) DEVICE_FILE s of
        (Inr v, s1) \<Rightarrow>
          (if v \<noteq> None then write_line ''Loaded existing device code'' (s1\<lparr>deviceCode := v\<rparr>)
           else s1\<lparr>deviceCode := v\<rparr>)
      | (Inl e, s1) \<Rightarrow>
          (write_line ''No existing device code found or failed to load'' s1)\<lparr>deviceCode := None\<rparr>)"

definition initialize :: "node \<Rightarrow> state \<Rightarrow> (js_error + unit) \<times> state" where
  "initialize N s =
     (case mkdir DATA_DIR s of
        (Inl e, s1) \<Rightarrow> (Inl e, write_line (''AuthManager initialization failed: '' @ message e) s1)
      | (Inr u, s1) \<Rightarrow>
          (Inr (), write_line ''AuthManager initialized successfully''
                     (loadDeviceCode N (loadTokens N s1))))"

definition saveTokens :: "node \<Rightarrow> state \<Rightarrow> (js_error + unit) \<times> state" where
  "saveTokens N s =
     (case tokens s of
        None \<Rightarrow> (Inr (), s)
      | Some t \<Rightarrow> saveEncryptedData N (json_tokens N) TOKEN_FILE (Some t) s)"

definition saveDeviceCode :: "node \<Rightarrow> state \<Rightarrow> (js_error + unit) \<times> state" where
  "saveDeviceCode N s =
     (case deviceCode s of
        None \<Rightarrow> (Inr (), s)
      | Some d \<Rightarrow> saveEncryptedData N (json_device N) DEVICE_FILE (Some d) s)"

text \<open>\<^verbatim>\<open>JSON.stringify(authInstructions)\<close>, the message of the error that \<^verbatim>\<open>authenticate\<close> throws.\<close>

definition authInstructions :: "node \<Rightarrow> device_authorization \<Rightarrow> string" where
  \<open>authInstructions N d =
     ''{"type":"authentication_required","message":"Microsoft Graph authentication required",''
     @ ''"instructions":{"verification_uri":'' @ json_string N (verification_uri d)
     @ '',"user_code":'' @ json_string N (user_code d)
     @ '',"expires_in":'' @ json_number N (device_expires_in d) @ ''}}''\<close>

text \<open>The \<^verbatim>\<open>catch\<close> block of \<^verbatim>\<open>authenticate\<close>.\<close>

definition authenticate_failed :: "js_error \<Rightarrow> state \<Rightarrow> (js_error + unit) \<times> state" where
  "authenticate_failed e s =
     (if string_includes (message e) ''authentication_required''
      then (Inl e, write_line (''[AUTH ERROR] AuthManager.authenticate() failed: '' @ message e) s)
      else (Inl (Error (''Authentication failed: ''
                   @ or_else (response_error_description e) (message e))),
            write_line (''[AUTH ERROR] AuthManager.authenticate() failed: '' @ message e) s))"

text \<open>
  A call of \<^verbatim>\<open>pollForTokenInBackground\<close> that is not awaited. The method runs until it
  has to wait: it writes its first line and calls \<^verbatim>\<open>pollForToken\<close>, which enters its loop
  with \<^verbatim>\<open>attempts = 0\<close> and calls \<^verbatim>\<open>axios.post\<close> with the device code grant; at the \<^verbatim>\<open>await\<close>
  of that request control returns to the caller. When \<^verbatim>\<open>this.deviceCode\<close> is \<^verbatim>\<open>null\<close>,
  reading \<^verbatim>\<open>device_code\<close> throws before \<^verbatim>\<open>axios.post\<close> is called, and the method is
  suspended at its own \<^verbatim>\<open>await\<close> with no request made.
\<close>

definition pollForTokenInBackground_called :: "state \<Rightarrow> state" where
  "pollForTokenInBackground_called s =
     (let s1 = write_line ''[POLL] Starting background token polling'' s in
      if 0 < MAX_POLL_ATTEMPTS then
        (case deviceCode s1 of
           None \<Rightarrow> s1
         | Some d \<Rightarrow> s1\<lparr>requests := requests s1 @ [DeviceCodeGrant (device_code d)]\<rparr>)
      else s1)"

text \<open>
  The argument \<open>r\<close> is the reply to the device code request. The call
  \<^verbatim>\<open>this.pollForTokenInBackground()\<close>, which is not awaited, is
  \<open>pollForTokenInBackground_called\<close> and adds one to \<open>detached\<close>; the error with the
  instructions is thrown after it. \<^verbatim>\<open>saveDeviceCode\<close> does not assign
  \<^verbatim>\<open>this.deviceCode\<close>, so the instructions are built from the value assigned before it.
\<close>

definition authenticate :: "node \<Rightarrow> device_authorization reply \<Rightarrow> state \<Rightarrow> (js_error + unit) \<times> state" where
  "authenticate N r s =
     (case axios_post DeviceCodeRequest r (write_line ''[AUTH] Entered AuthManager.authenticate()'' s) of
        (Inl e, s1) \<Rightarrow> authenticate_failed e s1
      | (Inr data, s1) \<Rightarrow>
          (let d = \<lparr>device_code = device_code data, user_code = user_code data,
                    verification_uri = verification_uri data,
                    device_expires_in = device_expires_in data, interval = interval data\<rparr>
           in case saveDeviceCode N (s1\<lparr>deviceCode := Some d\<rparr>) of
                (Inl e, s2) \<Rightarrow> authenticate_failed e s2
              | (Inr u, s2) \<Rightarrow>
                  authenticate_failed (Error (authInstructions N d))
                    ((pollForTokenInBackground_called
                        (write_line
                           ''[AUTH] Returning authentication instructions from AuthManager.authenticate()''
                           s2))\<lparr>detached := Suc (detached s2)\<rparr>)))"

text \<open>The \<^verbatim>\<open>catch\<close> block of the loop of \<^verbatim>\<open>pollForToken\<close>, but for its first branch.\<close>

definition poll_failed :: "js_error \<Rightarrow> js_error" where
  "poll_failed e =
     (if response_error e = Some ''authorization_declined''
      then Error ''Authorization was declined by the user''
      else if response_error e = Some ''expired_token''
      then Error ''Device code expired. Please try again.''
      else Error (''Token polling failed: '' @ or_else (response_error_description e) (message e)))"

text \<open>
  The loop of \<^verbatim>\<open>pollForToken\<close>. The reply to the request sent when the counter is
  \<open>attempts\<close> is \<open>replies attempts\<close>. Reading \<^verbatim>\<open>this.deviceCode.device_code\<close> when
  \<^verbatim>\<open>this.deviceCode\<close> is \<^verbatim>\<open>null\<close> throws a \<^verbatim>\<open>TypeError\<close> inside the \<^verbatim>\<open>try\<close> block, and
  so does a failure of \<^verbatim>\<open>saveTokens\<close>.
\<close>

function pollForToken_loop ::
  "node \<Rightarrow> (nat \<Rightarrow> token_response reply) \<Rightarrow> nat \<Rightarrow> state \<Rightarrow> (js_error + unit) \<times> state" where
  "pollForToken_loop N replies attempts s =
     (if attempts < MAX_POLL_ATTEMPTS then
        (case deviceCode s of
           None \<Rightarrow>
             (Inl (poll_failed
                (Error (''Cannot read properties of null (reading '' @ [CHR 0x27] @ ''device_code''
                   @ [CHR 0x27] @ '')''))), s)
         | Some d \<Rightarrow>
             (case axios_post (DeviceCodeGrant (device_code d)) (replies attempts) s of
                (Inr data, s1) \<Rightarrow>
                  (case saveTokens N
                          (s1\<lparr>tokens := Some \<lparr>access_token = access_token data,
                                  refresh_token = refresh_token data,
                                  expires_in = expires_in data,
                                  token_type = token_type data,
                                  expires_at = clock s1 + expires_in data * 1000\<rparr>\<rparr>) of
                     (Inl e, s2) \<Rightarrow> (Inl (poll_failed e), s2)
                   | (Inr u, s2) \<Rightarrow> (Inr (), write_line ''Authentication successful!'' s2))
              | (Inl e, s1) \<Rightarrow>
                  (if response_error e = Some ''authorization_pending''
                   then pollForToken_loop N replies (Suc attempts)
                          (sleep DEVICE_CODE_POLL_INTERVAL s1)
                   else (Inl (poll_failed e), s1))))
      else (Inl (Error ''Authentication timeout. Please try again.''), s))"
  by pat_completeness auto
termination
  by (relation "measure (\<lambda>(N, replies, attempts, s). MAX_POLL_ATTEMPTS - attempts)") auto

text \<open>\<^verbatim>\<open>startTime\<close> is never read.\<close>

definition pollForToken :: "node \<Rightarrow> (nat \<Rightarrow> token_response reply) \<Rightarrow> state \<Rightarrow> (js_error + unit) \<times> state" where
  "pollForToken N replies s = pollForToken_loop N replies 0 s"

text \<open>
  \<^verbatim>\<open>pollForTokenInBackground\<close> from its call to its completion. Its promise never rejects:
  the result is a state.
\<close>

definition pollForTokenInBackground :: "node \<Rightarrow> (nat \<Rightarrow> token_response reply) \<Rightarrow> state \<Rightarrow> state" where
  "pollForTokenInBackground N replies s =
     (case pollForToken N replies (write_line ''[POLL] Starting background token polling'' s) of
        (Inr u, s1) \<Rightarrow> write_line ''[POLL] Background polling completed successfully'' s1
      | (Inl e, s1) \<Rightarrow> write_line (''[POLL ERROR] Background polling failed: '' @ message e) s1)"

text \<open>
  The \<^verbatim>\<open>catch\<close> block of \<^verbatim>\<open>refreshAccessToken\<close>; an error thrown by \<^verbatim>\<open>saveTokens\<close> inside it
  leaves the method in place of the error that the block would throw.
\<close>

definition refresh_failed :: "node \<Rightarrow> js_error \<Rightarrow> state \<Rightarrow> (js_error + unit) \<times> state" where
  "refresh_failed N e s =
     (case saveTokens N ((write_line (''Token refresh failed: '' @ message e) s)\<lparr>tokens := None\<rparr>) of
        (Inl e', s1) \<Rightarrow> (Inl e', s1)
      | (Inr u, s1) \<Rightarrow> (Inl (Error ''Token refresh failed. Please re-authenticate.''), s1))"

text \<open>The argument \<open>r\<close> is the reply to the refresh request.\<close>

definition refreshAccessToken :: "node \<Rightarrow> token_response reply \<Rightarrow> state \<Rightarrow> (js_error + unit) \<times> state" where
  "refreshAccessToken N r s =
     (case tokens s of
        None \<Rightarrow> (Inl (Error ''No refresh token available. Please re-authenticate.''), s)
      | Some old \<Rightarrow>
          (if \<not> truthy (refresh_token old)
           then (Inl (Error ''No refresh token available. Please re-authenticate.''), s)
           else
             (case axios_post (RefreshTokenGrant (or_else (refresh_token old) [])) r s of
                (Inl e, s1) \<Rightarrow> refresh_failed N e s1
              | (Inr data, s1) \<Rightarrow>
                  (case saveTokens N
                          (s1\<lparr>tokens := Some \<lparr>access_token = access_token data,
                                  refresh_token =
                                    (if truthy (refresh_token data) then refresh_token data
                                     else refresh_token old),
                                  expires_in = expires_in data,
                                  token_type = token_type data,
                                  expires_at = clock s1 + expires_in data * 1000\<rparr>\<rparr>) of
                     (Inl e, s2) \<Rightarrow> refresh_failed N e s2
                   | (Inr u, s2) \<Rightarrow> (Inr (), write_line ''Token refreshed successfully'' s2)))))"

text \<open>\<^verbatim>\<open>this.tokens.f\<close>: a \<^verbatim>\<open>TypeError\<close> when \<^verbatim>\<open>this.tokens\<close> is \<^verbatim>\<open>null\<close>.\<close>

definition tokens_field :: "(token_set \<Rightarrow> 'a) \<Rightarrow> string \<Rightarrow> state \<Rightarrow> js_error + 'a" where
  "tokens_field f name s =
     (case tokens s of
        None \<Rightarrow> Inl (Error (''Cannot read properties of null (reading '' @ [CHR 0x27] @ name
                       @ [CHR 0x27] @ '')''))
      | Some t \<Rightarrow> Inr (f t))"

text \<open>
  \<open>dr\<close> is the reply to the device code request and \<open>tr\<close> the reply to the refresh
  request, for the request that the call sends, if any.
\<close>

definition getValidAccessToken ::
  "node \<Rightarrow> device_authorization reply \<Rightarrow> token_response reply \<Rightarrow> state \<Rightarrow> (js_error + string) \<times> state" where
  "getValidAccessToken N dr tr s =
     (case (if tokens s = None then authenticate N dr s else (Inr (), s)) of
        (Inl e, s1) \<Rightarrow> (Inl e, s1)
      | (Inr u, s1) \<Rightarrow>
          (case tokens_field expires_at ''expires_at'' s1 of
             Inl e \<Rightarrow> (Inl e, s1)
           | Inr expiresAt \<Rightarrow>
               (case (if clock s1 \<ge> expiresAt - TOKEN_EXPIRY_BUFFER
                      then refreshAccessToken N tr
                             (write_line ''Token expired or about to expire, refreshing...'' s1)
                      else (Inr (), s1)) of
                  (Inl e, s2) \<Rightarrow> (Inl e, s2)
                | (Inr u, s2) \<Rightarrow> (tokens_field access_token ''access_token'' s2, s2))))"

subsection \<open>A small instance for the examples\<close>

text \<open>
  The examples below run the code on a small instance of \<open>node\<close>: the cipher
  reverses the text and takes the key followed by the nonce as the tag; the text of
  an \<^verbatim>\<open>{encrypted, iv, tag}\<close> object is its three fields separated by colons; the text
  of a token set is its access token, the text of a device authorization is its device
  code, the text of \<^verbatim>\<open>null\<close> is \<^verbatim>\<open>null\<close>, and only the texts of \<open>example_tokens\<close>, of
  \<open>example_device\<close> and of \<^verbatim>\<open>null\<close> parse; the text of a string is the string between
  double quotes (the examples have no character to escape) and the text of a number is
  its decimal notation. The cipher takes every key, nonce and tag.
\<close>

fun split_colon :: "string \<Rightarrow> string list" where
  "split_colon [] = [[]]"
| "split_colon (c # cs) =
     (if c = CHR '':'' then [] # split_colon cs
      else (case split_colon cs of [] \<Rightarrow> [[c]] | x # xs \<Rightarrow> (c # x) # xs))"

definition example_tokens :: token_set where
  "example_tokens = \<lparr>access_token = ''access-0'', refresh_token = Some ''refresh-0'',
     expires_in = 3600, token_type = ''Bearer'', expires_at = 3600000\<rparr>"

definition example_device :: device_authorization where
  "example_device = \<lparr>device_code = ''device-0'', user_code = ''ABCD1234'',
     verification_uri = ''https://microsoft.com/devicelogin'', device_expires_in = 900,
     interval = 5\<rparr>"

definition example_node :: node where
  "example_node =
     \<lparr>pbkdf2Sync = (\<lambda>m. ''key-of-'' @ m),
      gcm_encrypt = (\<lambda>key nonce p. (rev p, key @ nonce)),
      gcm_decrypt = (\<lambda>key nonce t c.
        if t = key @ nonce then Inr (rev c)
        else Inl ''Unsupported state or unable to authenticate data''),
      gcm_setup = (\<lambda>key nonce t. None),
      json_blob =
        \<lparr>stringify = (\<lambda>b. encrypted b @ '':'' @ iv b @ '':'' @ tag b),
         parse = (\<lambda>t. case split_colon t of
                    [e, i, g] \<Rightarrow> Inr \<lparr>encrypted = e, iv = i, tag = g\<rparr>
                  | _ \<Rightarrow> Inl ''Unexpected token in JSON'')\<rparr>,
      json_tokens =
        \<lparr>stringify = (\<lambda>v. case v of None \<Rightarrow> ''null'' | Some t \<Rightarrow> access_token t),
         parse = (\<lambda>t. if t = ''null'' then Inr None
                       else if t = access_token example_tokens then Inr (Some example_tokens)
                       else Inl ''Unexpected token in JSON'')\<rparr>,
      json_device =
        \<lparr>stringify = (\<lambda>v. case v of None \<Rightarrow> ''null'' | Some d \<Rightarrow> device_code d),
         parse = (\<lambda>t. if t = ''null'' then Inr None
                       else if t = device_code example_device then Inr (Some example_device)
                       else Inl ''Unexpected token in JSON'')\<rparr>,
      json_string = (\<lambda>t. [CHR 0x22] @ t @ [CHR 0x22]),
      json_number = (\<lambda>n. if n < 0 then ''-'' @ decimal (nat (- n)) else decimal (nat n))\<rparr>"

text \<open>
  A process that has just started on a machine whose data directory exists and
  holds no file.
\<close>

definition example_state :: state where
  "example_state =
     \<lparr>machineKey = None, tokens = None, deviceCode = None,
      files = Map.empty, dirs = {DATA_DIR}, clock = 1000000,
      machine_id = Inr ''machine-0'', entropy = (\<lambda>n. ''0123456789abcdef''), drawn = 0,
      requests = [], detached = 0, console = []\<rparr>"

text \<open>Replies of the server.\<close>

definition server_error :: "string \<Rightarrow> 'a reply" where
  "server_error c =
     \<lparr>latency = 100,
      outcome = Inl \<lparr>message = ''Request failed with status code 400'', code = None,
                     response_error = Some c, response_error_description = None\<rparr>\<rparr>"

definition network_error :: "'a reply" where
  "network_error =
     \<lparr>latency = 100,
      outcome = Inl \<lparr>message = ''Network Error'', code = Some ''ERR_NETWORK'',
                     response_error = None, response_error_description = None\<rparr>\<rparr>"

definition success :: "'a \<Rightarrow> 'a reply" where
  "success data = \<lparr>latency = 100, outcome = Inr data\<rparr>"

definition example_response :: token_response where
  "example_response = \<lparr>access_token = ''access-1'', refresh_token = None,
     expires_in = 3600, token_type = ''Bearer''\<rparr>"

section \<open>Properties\<close>

subsection \<open>Hexadecimal encoding and the frame of the storage methods\<close>

declare pollForToken_loop.simps [simp del]

lemma hex_digits_all: "list_all (\<lambda>n. hex_value (hex_digit n) = Some n) [0..<16]"
  by code_simp

lemma hex_value_hex_digit: "n < 16 \<Longrightarrow> hex_value (hex_digit n) = Some n"
  using hex_digits_all by (simp only: list_all_iff) simp

lemma of_char_less: "(of_char c :: nat) < 256"
proof -
  have "(of_char c :: nat) mod 256 < 256" by simp
  then show ?thesis by (simp only: of_char_mod_256)
qed

lemma from_hex_to_hex: "from_hex (to_hex b) = b"
proof (induction b)
  case Nil
  show ?case by (simp add: to_hex_def)
next
  case (Cons c b)
  have hi: "(of_char c :: nat) div 16 < 16"
    by (rule less_mult_imp_div_less) (use of_char_less [of c] in simp)
  have lo: "(of_char c :: nat) mod 16 < 16" by simp
  have "to_hex (c # b) = hex_digit (of_char c div 16) # hex_digit (of_char c mod 16) # to_hex b"
    by (simp add: to_hex_def)
  then show ?case
    using Cons.IH by (simp add: hex_value_hex_digit [OF hi] hex_value_hex_digit [OF lo])
qed


lemma length_to_hex: "length (to_hex b) = 2 * length b"
  by (induction b) (simp_all add: to_hex_def)

lemma ancestors_DATA_DIR: "ancestors DATA_DIR = []"
  by code_simp

lemma ancestors_TOKEN_FILE: "ancestors TOKEN_FILE = [DATA_DIR]"
  by code_simp

lemma ancestors_DEVICE_FILE: "ancestors DEVICE_FILE = [DATA_DIR]"
  by code_simp

lemma getMachineKey_frame:
  "tokens (snd (getMachineKey N s)) = tokens s \<and>
   deviceCode (snd (getMachineKey N s)) = deviceCode s \<and>
   requests (snd (getMachineKey N s)) = requests s \<and>
   detached (snd (getMachineKey N s)) = detached s \<and>
   clock (snd (getMachineKey N s)) = clock s \<and>
   dirs (snd (getMachineKey N s)) = dirs s \<and>
   machine_id (snd (getMachineKey N s)) = machine_id s \<and>
   files (snd (getMachineKey N s)) = files s"
  by (cases "machineKey s"; cases "machine_id s") (simp_all add: getMachineKey_def)

lemma getMachineKey_cached:
  "getMachineKey N s = (Inr key, s') \<Longrightarrow> machineKey s' = Some key"
  unfolding getMachineKey_def
  by (cases "machineKey s"; cases "machine_id s") auto

lemma getMachineKey_available:
  "machineKey s \<noteq> None \<or> (\<exists>m. machine_id s = Inr m) \<Longrightarrow>
   \<exists>key s'. getMachineKey N s = (Inr key, s')"
  unfolding getMachineKey_def
  by (cases "machineKey s"; cases "machine_id s") auto

lemma encrypt_frame:
  "tokens (snd (encrypt N J x s)) = tokens s \<and>
   deviceCode (snd (encrypt N J x s)) = deviceCode s \<and>
   requests (snd (encrypt N J x s)) = requests s \<and>
   detached (snd (encrypt N J x s)) = detached s \<and>
   clock (snd (encrypt N J x s)) = clock s \<and>
   dirs (snd (encrypt N J x s)) = dirs s \<and>
   machine_id (snd (encrypt N J x s)) = machine_id s \<and>
   files (snd (encrypt N J x s)) = files s"
proof -
  obtain r0 s0 where k: "getMachineKey N s = (r0, s0)" by (cases "getMachineKey N s")
  have f: "tokens s0 = tokens s \<and> deviceCode s0 = deviceCode s \<and> requests s0 = requests s \<and>
     detached s0 = detached s \<and> clock s0 = clock s \<and> dirs s0 = dirs s \<and>
     machine_id s0 = machine_id s \<and> files s0 = files s"
    using getMachineKey_frame [of N s] by (simp add: k)
  show ?thesis
  proof (cases r0)
    case (Inl e)
    with k f show ?thesis by (simp add: encrypt_def write_line_def)
  next
    case (Inr key)
    with k f show ?thesis
      by (simp add: encrypt_def randomBytes_def split: prod.splits)
  qed
qed

lemma writeFile_frame:
  "tokens (snd (writeFile p t s)) = tokens s \<and>
   deviceCode (snd (writeFile p t s)) = deviceCode s \<and>
   requests (snd (writeFile p t s)) = requests s \<and>
   detached (snd (writeFile p t s)) = detached s \<and>
   clock (snd (writeFile p t s)) = clock s \<and>
   dirs (snd (writeFile p t s)) = dirs s \<and>
   machine_id (snd (writeFile p t s)) = machine_id s \<and>
   (\<forall>q. q \<noteq> p \<longrightarrow> files (snd (writeFile p t s)) q = files s q)"
  by (simp add: writeFile_def)

lemma saveEncryptedData_frame:
  "tokens (snd (saveEncryptedData N J p x s)) = tokens s \<and>
   deviceCode (snd (saveEncryptedData N J p x s)) = deviceCode s \<and>
   requests (snd (saveEncryptedData N J p x s)) = requests s \<and>
   detached (snd (saveEncryptedData N J p x s)) = detached s \<and>
   clock (snd (saveEncryptedData N J p x s)) = clock s \<and>
   dirs (snd (saveEncryptedData N J p x s)) = dirs s \<and>
   machine_id (snd (saveEncryptedData N J p x s)) = machine_id s \<and>
   (\<forall>q. q \<noteq> p \<longrightarrow> files (snd (saveEncryptedData N J p x s)) q = files s q)"
proof -
  obtain r0 s0 where e: "encrypt N J x s = (r0, s0)" by (cases "encrypt N J x s")
  have f: "tokens s0 = tokens s \<and> deviceCode s0 = deviceCode s \<and> requests s0 = requests s \<and>
     detached s0 = detached s \<and> clock s0 = clock s \<and> dirs s0 = dirs s \<and>
     machine_id s0 = machine_id s \<and> files s0 = files s"
    using encrypt_frame [of N J x s] by (simp add: e)
  show ?thesis
  proof (cases r0)
    case (Inl err)
    with e f show ?thesis
      by (simp add: saveEncryptedData_def save_failed_def write_line_def)
  next
    case (Inr b)
    obtain r1 s1 where w: "writeFile p (stringify (json_blob N) b) s0 = (r1, s1)"
      by (cases "writeFile p (stringify (json_blob N) b) s0")
    have g: "tokens s1 = tokens s \<and> deviceCode s1 = deviceCode s \<and> requests s1 = requests s \<and>
     detached s1 = detached s \<and> clock s1 = clock s \<and> dirs s1 = dirs s \<and>
     machine_id s1 = machine_id s \<and> (\<forall>q. q \<noteq> p \<longrightarrow> files s1 q = files s q)"
      using writeFile_frame [of p "stringify (json_blob N) b" s0] f by (simp add: w)
    show ?thesis
    proof (cases r1)
      case (Inl err)
      with e w Inr g show ?thesis
        by (simp add: saveEncryptedData_def save_failed_def write_line_def)
    next
      case (Inr u)
      with e w \<open>r0 = Inr b\<close> g show ?thesis
        by (simp add: saveEncryptedData_def)
    qed
  qed
qed


subsection \<open>C9: decryption inverts encryption\<close>

text \<open>
  C9. For every payload \<open>P\<close> that \<^verbatim>\<open>JSON.parse\<close> reads back from its
  \<^verbatim>\<open>JSON.stringify\<close> text, \<^verbatim>\<open>encrypt\<close> returns a blob and \<^verbatim>\<open>decrypt\<close> of that blob, under
  the key that \<^verbatim>\<open>encrypt\<close> derived and cached, returns \<open>P\<close>. The nonce is the one the
  random source gave; the cipher is any one whose decryption inverts its encryption
  under the same key and nonce; the machine key is cached or can be derived.
\<close>

theorem C9_roundtrip:
  assumes cipher: "\<forall>key nonce p. gcm_decrypt N key nonce (snd (gcm_encrypt N key nonce p))
                      (fst (gcm_encrypt N key nonce p)) = Inr p"
    and serializable: "parse J (stringify J P) = Inr P"
    and key: "machineKey s \<noteq> None \<or> (\<exists>m. machine_id s = Inr m)"
  shows "\<exists>blob s1. encrypt N J P s = (Inr blob, s1) \<and> decrypt N J blob s1 = (Inr P, s1)"
proof -
  from getMachineKey_available [OF key] obtain k s0 where k: "getMachineKey N s = (Inr k, s0)"
    by blast
  obtain nonce s1 where n: "randomBytes s0 = (nonce, s1)" by (cases "randomBytes s0")
  obtain c t where ct: "gcm_encrypt N k nonce (stringify J P) = (c, t)"
    by (cases "gcm_encrypt N k nonce (stringify J P)")
  let ?blob = "\<lparr>encrypted = to_hex c, iv = to_hex nonce, tag = to_hex t\<rparr>"
  have enc: "encrypt N J P s = (Inr ?blob, s1)"
    by (simp add: encrypt_def k n ct)
  have "machineKey s0 = Some k"
    using k by (rule getMachineKey_cached)
  then have "machineKey s1 = Some k"
    using n by (auto simp: randomBytes_def)
  then have k1: "getMachineKey N s1 = (Inr k, s1)"
    by (simp add: getMachineKey_def)
  have "gcm_decrypt N k nonce t c = Inr (stringify J P)"
    using cipher [rule_format, of k nonce "stringify J P"] by (simp add: ct)
  then have "decrypt N J ?blob s1 = (Inr P, s1)"
    by (simp add: decrypt_def k1 from_hex_to_hex length_to_hex serializable)
  with enc show ?thesis by blast
qed

theorem C9_roundtrip_witness:
  "parse (json_tokens example_node)
       (stringify (json_tokens example_node) (Some example_tokens))
     = Inr (Some example_tokens) \<and>
   machine_id example_state = Inr ''machine-0'' \<and>
   (\<exists>blob s1. encrypt example_node (json_tokens example_node) (Some example_tokens) example_state
                 = (Inr blob, s1) \<and>
              decrypt example_node (json_tokens example_node) blob s1
                 = (Inr (Some example_tokens), s1))"
proof -
  have c: "\<forall>key nonce p. gcm_decrypt example_node key nonce
             (snd (gcm_encrypt example_node key nonce p))
             (fst (gcm_encrypt example_node key nonce p)) = Inr p"
    by (simp add: example_node_def)
  have j: "parse (json_tokens example_node)
       (stringify (json_tokens example_node) (Some example_tokens))
     = Inr (Some example_tokens)"
    by (simp add: example_node_def example_tokens_def)
  have m: "machine_id example_state = Inr ''machine-0''"
    by (simp add: example_state_def)
  then have k: "machineKey example_state \<noteq> None \<or> (\<exists>m. machine_id example_state = Inr m)"
    by simp
  from C9_roundtrip [OF c j k] j m show ?thesis by blast
qed

subsection \<open>Outcomes of the storage methods\<close>

lemma decrypt_error:
  "fst (decrypt N J b s) = Inl e \<Longrightarrow> \<exists>m. e = Error (''Decryption failed: '' @ m)"
proof -
  assume a: "fst (decrypt N J b s) = Inl e"
  obtain r0 s0 where k: "getMachineKey N s = (r0, s0)" by (cases "getMachineKey N s")
  show ?thesis
  proof (cases r0)
    case (Inl e0)
    with a k show ?thesis by (auto simp: decrypt_def decrypt_failed_def)
  next
    case (Inr key)
    with a k show ?thesis
      by (auto simp: decrypt_def decrypt_failed_def split: sum.splits option.splits if_splits)
  qed
qed

text \<open>A blob whose ciphertext has an odd number of hex digits does not decrypt.\<close>

lemma decrypt_odd:
  assumes "odd (length (encrypted b))"
  shows "\<exists>e. fst (decrypt N J b s) = Inl e"
proof -
  obtain r0 s0 where k: "getMachineKey N s = (r0, s0)" by (cases "getMachineKey N s")
  show ?thesis
  proof (cases r0)
    case (Inl e0)
    with k show ?thesis by (simp add: decrypt_def decrypt_failed_def)
  next
    case (Inr key)
    with k assms show ?thesis
      by (cases "gcm_setup N key (from_hex (iv b)) (from_hex (tag b))")
         (simp_all add: decrypt_def decrypt_failed_def)
  qed
qed

lemma load_failed_Error:
  "fst (load_failed p (Error m) s) = Inl (Error (''Failed to load encrypted data: '' @ m))"
  by (simp add: load_failed_def Error_def)







subsection \<open>C10: nothing is saved when nothing is held\<close>

text \<open>
  C10. \<^verbatim>\<open>saveTokens\<close> and \<^verbatim>\<open>saveDeviceCode\<close> write their file only when the value in
  memory is not \<^verbatim>\<open>null\<close>. When it is \<^verbatim>\<open>null\<close>, the call returns normally and the state,
  with every file in it, is what it was; the files change only if a value is held, and
  then the call is \<^verbatim>\<open>saveEncryptedData\<close> of that value to the file of its kind.
\<close>

theorem C10_save_only_when_held:
  "(tokens s = None \<longrightarrow> saveTokens N s = (Inr (), s)) \<and>
   (deviceCode s = None \<longrightarrow> saveDeviceCode N s = (Inr (), s)) \<and>
   (files (snd (saveTokens N s)) \<noteq> files s \<longrightarrow> tokens s \<noteq> None) \<and>
   (files (snd (saveDeviceCode N s)) \<noteq> files s \<longrightarrow> deviceCode s \<noteq> None) \<and>
   (\<forall>t. tokens s = Some t \<longrightarrow>
      saveTokens N s = saveEncryptedData N (json_tokens N) TOKEN_FILE (Some t) s) \<and>
   (\<forall>d. deviceCode s = Some d \<longrightarrow>
      saveDeviceCode N s = saveEncryptedData N (json_device N) DEVICE_FILE (Some d) s)"
  by (cases "tokens s"; cases "deviceCode s") (simp_all add: saveTokens_def saveDeviceCode_def)

theorem C10_save_only_when_held_witness:
  "tokens (example_state\<lparr>files := [TOKEN_FILE \<mapsto> Text ''stored'']\<rparr>) = None \<and>
   saveTokens example_node (example_state\<lparr>files := [TOKEN_FILE \<mapsto> Text ''stored'']\<rparr>)
     = (Inr (), example_state\<lparr>files := [TOKEN_FILE \<mapsto> Text ''stored'']\<rparr>) \<and>
   deviceCode (example_state\<lparr>files := [TOKEN_FILE \<mapsto> Text ''stored'']\<rparr>) = None \<and>
   saveDeviceCode example_node (example_state\<lparr>files := [TOKEN_FILE \<mapsto> Text ''stored'']\<rparr>)
     = (Inr (), example_state\<lparr>files := [TOKEN_FILE \<mapsto> Text ''stored'']\<rparr>)"
  using C10_save_only_when_held
    [of "example_state\<lparr>files := [TOKEN_FILE \<mapsto> Text ''stored'']\<rparr>" example_node]
  by (simp add: example_state_def)

subsection \<open>C7: when loading returns \<^verbatim>\<open>null\<close> and when it throws\<close>

lemma readFile_text:
  "\<not> below_a_file p s \<Longrightarrow> p \<notin> dirs s \<Longrightarrow> files s p = Some (Text t) \<Longrightarrow> readFile p s = Inr t"
  by (simp add: readFile_def)

lemma load_absent:
  "\<not> below_a_file p s \<Longrightarrow> p \<notin> dirs s \<Longrightarrow> files s p = None \<Longrightarrow>
   loadEncryptedData N J p s = (Inr None, s)"
  by (simp add: loadEncryptedData_def readFile_def load_failed_def SystemError_def)

lemma load_refused:
  assumes "below_a_file p s \<or> p \<in> dirs s \<or> files s p = Some NoAccess"
  shows "\<exists>m. fst (loadEncryptedData N J p s)
               = Inl (Error (''Failed to load encrypted data: '' @ m))"
proof -
  from assms have "\<exists>e. readFile p s = Inl e \<and> code e \<noteq> Some ''ENOENT''"
    by (auto simp: readFile_def SystemError_def)
  then obtain e where "readFile p s = Inl e" and "code e \<noteq> Some ''ENOENT''" by blast
  then have "fst (loadEncryptedData N J p s)
               = Inl (Error (''Failed to load encrypted data: '' @ message e))"
    by (simp add: loadEncryptedData_def load_failed_def)
  then show ?thesis by (rule exI)
qed

lemma load_malformed:
  "readFile p s = Inr t \<Longrightarrow> parse (json_blob N) t = Inl m \<Longrightarrow>
   fst (loadEncryptedData N J p s) = Inl (Error (''Failed to load encrypted data: '' @ m))"
  by (simp add: loadEncryptedData_def load_failed_Error)

lemma load_undecryptable:
  assumes "readFile p s = Inr t" and "parse (json_blob N) t = Inr b"
    and "fst (decrypt N J b s) = Inl e"
  shows "fst (loadEncryptedData N J p s)
           = Inl (Error (''Failed to load encrypted data: '' @ message e))"
proof -
  from decrypt_error [OF assms(3)] have c: "code e = None"
    by (auto simp: Error_def)
  obtain r1 s1 where d: "decrypt N J b s = (r1, s1)" by (cases "decrypt N J b s")
  with assms(3) have "r1 = Inl e" by simp
  with assms(1,2) d c show ?thesis
    by (simp add: loadEncryptedData_def load_failed_def)
qed

lemma load_decrypted:
  assumes "readFile p s = Inr t" and "parse (json_blob N) t = Inr b"
    and "fst (decrypt N J b s) = Inr v"
  shows "fst (loadEncryptedData N J p s) = Inr v"
proof -
  obtain r1 s1 where d: "decrypt N J b s = (r1, s1)" by (cases "decrypt N J b s")
  with assms(3) have "r1 = Inr v" by simp
  with assms(1,2) d show ?thesis
    by (simp add: loadEncryptedData_def)
qed

text \<open>The two ways in which the result is \<^verbatim>\<open>null\<close>.\<close>

lemma load_null:
  assumes n: "fst (loadEncryptedData N J p s) = Inr None"
  shows "(\<not> below_a_file p s \<and> p \<notin> dirs s \<and> files s p = None) \<or>
         (\<exists>t b. \<not> below_a_file p s \<and> p \<notin> dirs s \<and> files s p = Some (Text t) \<and>
                parse (json_blob N) t = Inr b \<and> fst (decrypt N J b s) = Inr None)"
proof (cases "below_a_file p s \<or> p \<in> dirs s \<or> files s p = Some NoAccess")
  case True
  from load_refused [OF this, of N J] n show ?thesis by simp
next
  case False
  then have free: "\<not> below_a_file p s" "p \<notin> dirs s" and acc: "files s p \<noteq> Some NoAccess"
    by simp_all
  show ?thesis
  proof (cases "files s p")
    case None
    with free show ?thesis by simp
  next
    case (Some f)
    with acc obtain t where t: "files s p = Some (Text t)" by (cases f) simp_all
    note rd = readFile_text [OF free t]
    show ?thesis
    proof (cases "parse (json_blob N) t")
      case (Inl m)
      from load_malformed [OF rd Inl, of J] n show ?thesis by simp
    next
      case (Inr b)
      show ?thesis
      proof (cases "fst (decrypt N J b s)")
        case (Inl e)
        from load_undecryptable [OF rd Inr Inl] n show ?thesis by simp
      next
        case v: (Inr v)
        from load_decrypted [OF rd Inr v] n have "v = None" by simp
        with v free t Inr show ?thesis by blast
      qed
    qed
  qed
qed

text \<open>
  C7, as the code has it. \<^verbatim>\<open>loadEncryptedData\<close> returns \<^verbatim>\<open>null\<close>, and changes nothing, when
  \<^verbatim>\<open>readFile\<close> fails with \<^verbatim>\<open>ENOENT\<close>: nothing is at the path and no component of the path
  is a file. A file that does not exist below a file (\<^verbatim>\<open>ENOTDIR\<close>), a directory at the
  path (\<^verbatim>\<open>EISDIR\<close>) and an entry without access make it throw
  \<^verbatim>\<open>Failed to load encrypted data: ...\<close>. On a file that can be read it throws that error
  when the text is not the JSON of a blob (malformed or truncated) and when the blob
  does not decrypt, which is the case of every blob whose ciphertext has an odd number
  of hex digits; otherwise it returns the stored payload. So the result is \<^verbatim>\<open>null\<close> only
  for a file that does not exist, or for a file in which \<^verbatim>\<open>null\<close> was stored.
\<close>

theorem C7_load_absent_or_broken:
  "(\<not> below_a_file p s \<and> p \<notin> dirs s \<and> files s p = None \<longrightarrow>
      loadEncryptedData N J p s = (Inr None, s)) \<and>
   (below_a_file p s \<or> p \<in> dirs s \<or> files s p = Some NoAccess \<longrightarrow>
      (\<exists>m. fst (loadEncryptedData N J p s)
              = Inl (Error (''Failed to load encrypted data: '' @ m)))) \<and>
   (\<forall>t. \<not> below_a_file p s \<and> p \<notin> dirs s \<and> files s p = Some (Text t) \<longrightarrow>
      (\<forall>m. parse (json_blob N) t = Inl m \<longrightarrow>
         fst (loadEncryptedData N J p s)
           = Inl (Error (''Failed to load encrypted data: '' @ m))) \<and>
      (\<forall>b. parse (json_blob N) t = Inr b \<longrightarrow>
         (\<forall>e. fst (decrypt N J b s) = Inl e \<longrightarrow>
            fst (loadEncryptedData N J p s)
              = Inl (Error (''Failed to load encrypted data: '' @ message e))) \<and>
         (\<forall>v. fst (decrypt N J b s) = Inr v \<longrightarrow> fst (loadEncryptedData N J p s) = Inr v) \<and>
         (odd (length (encrypted b)) \<longrightarrow> (\<exists>e. fst (decrypt N J b s) = Inl e)))) \<and>
   (fst (loadEncryptedData N J p s) = Inr None \<longrightarrow>
      (\<not> below_a_file p s \<and> p \<notin> dirs s \<and> files s p = None) \<or>
      (\<exists>t b. \<not> below_a_file p s \<and> p \<notin> dirs s \<and> files s p = Some (Text t) \<and>
             parse (json_blob N) t = Inr b \<and> fst (decrypt N J b s) = Inr None))"
proof (intro conjI allI impI)
  assume "\<not> below_a_file p s \<and> p \<notin> dirs s \<and> files s p = None"
  then show "loadEncryptedData N J p s = (Inr None, s)" by (intro load_absent) simp_all
next
  assume "below_a_file p s \<or> p \<in> dirs s \<or> files s p = Some NoAccess"
  then show "\<exists>m. fst (loadEncryptedData N J p s)
              = Inl (Error (''Failed to load encrypted data: '' @ m))"
    by (rule load_refused)
next
  fix t m
  assume "\<not> below_a_file p s \<and> p \<notin> dirs s \<and> files s p = Some (Text t)"
  then have rd: "readFile p s = Inr t" by (intro readFile_text) simp_all
  assume "parse (json_blob N) t = Inl m"
  with rd show "fst (loadEncryptedData N J p s)
           = Inl (Error (''Failed to load encrypted data: '' @ m))"
    by (rule load_malformed)
next
  fix t b e
  assume "\<not> below_a_file p s \<and> p \<notin> dirs s \<and> files s p = Some (Text t)"
  then have rd: "readFile p s = Inr t" by (intro readFile_text) simp_all
  assume "parse (json_blob N) t = Inr b" and "fst (decrypt N J b s) = Inl e"
  with rd show "fst (loadEncryptedData N J p s)
              = Inl (Error (''Failed to load encrypted data: '' @ message e))"
    by (rule load_undecryptable)
next
  fix t b v
  assume "\<not> below_a_file p s \<and> p \<notin> dirs s \<and> files s p = Some (Text t)"
  then have rd: "readFile p s = Inr t" by (intro readFile_text) simp_all
  assume "parse (json_blob N) t = Inr b" and "fst (decrypt N J b s) = Inr v"
  with rd show "fst (loadEncryptedData N J p s) = Inr v"
    by (rule load_decrypted)
next
  fix b :: encrypted_data
  assume "odd (length (encrypted b))"
  then show "\<exists>e. fst (decrypt N J b s) = Inl e" by (rule decrypt_odd)
next
  assume "fst (loadEncryptedData N J p s) = Inr None"
  then show "(\<not> below_a_file p s \<and> p \<notin> dirs s \<and> files s p = None) \<or>
      (\<exists>t b. \<not> below_a_file p s \<and> p \<notin> dirs s \<and> files s p = Some (Text t) \<and>
             parse (json_blob N) t = Inr b \<and> fst (decrypt N J b s) = Inr None)"
    by (rule load_null)
qed

lemma ex_absent:
  "\<not> below_a_file TOKEN_FILE example_state \<and> TOKEN_FILE \<notin> dirs example_state \<and>
   files example_state TOKEN_FILE = None"
  by code_simp

lemma ex_truncated:
  "\<not> below_a_file TOKEN_FILE
       (example_state\<lparr>files := [TOKEN_FILE \<mapsto> Text ''302d737365636361:3031'']\<rparr>) \<and>
   TOKEN_FILE \<notin> dirs (example_state\<lparr>files := [TOKEN_FILE \<mapsto> Text ''302d737365636361:3031'']\<rparr>) \<and>
   files (example_state\<lparr>files := [TOKEN_FILE \<mapsto> Text ''302d737365636361:3031'']\<rparr>) TOKEN_FILE
     = Some (Text ''302d737365636361:3031'') \<and>
   parse (json_blob example_node) ''302d737365636361:3031'' = Inl ''Unexpected token in JSON''"
  by code_simp

lemma ex_odd:
  "\<not> below_a_file TOKEN_FILE
       (example_state\<lparr>files := [TOKEN_FILE \<mapsto> Text ''302d73736563636:3031:6b'']\<rparr>) \<and>
   TOKEN_FILE \<notin> dirs (example_state\<lparr>files := [TOKEN_FILE \<mapsto> Text ''302d73736563636:3031:6b'']\<rparr>) \<and>
   files (example_state\<lparr>files := [TOKEN_FILE \<mapsto> Text ''302d73736563636:3031:6b'']\<rparr>) TOKEN_FILE
     = Some (Text ''302d73736563636:3031:6b'') \<and>
   parse (json_blob example_node) ''302d73736563636:3031:6b''
     = Inr \<lparr>encrypted = ''302d73736563636'', iv = ''3031'', tag = ''6b''\<rparr> \<and>
   fst (decrypt example_node (json_tokens example_node)
          \<lparr>encrypted = ''302d73736563636'', iv = ''3031'', tag = ''6b''\<rparr>
          (example_state\<lparr>files := [TOKEN_FILE \<mapsto> Text ''302d73736563636:3031:6b'']\<rparr>))
     = Inl (Error (''Decryption failed: The argument '' @ [CHR 0x27] @ ''encoding'' @ [CHR 0x27]
              @ '' is invalid for data of length 15. Received '' @ [CHR 0x27] @ ''hex''
              @ [CHR 0x27]))"
  by code_simp

theorem C7_load_absent_or_broken_witness:
  "\<not> below_a_file TOKEN_FILE example_state \<and> TOKEN_FILE \<notin> dirs example_state \<and>
   files example_state TOKEN_FILE = None \<and>
   loadEncryptedData example_node (json_tokens example_node) TOKEN_FILE example_state
     = (Inr None, example_state) \<and>
   fst (loadEncryptedData example_node (json_tokens example_node) TOKEN_FILE
          (example_state\<lparr>files := [TOKEN_FILE \<mapsto> Text ''302d737365636361:3031'']\<rparr>))
     = Inl (Error ''Failed to load encrypted data: Unexpected token in JSON'') \<and>
   fst (loadEncryptedData example_node (json_tokens example_node) TOKEN_FILE
          (example_state\<lparr>files := [TOKEN_FILE \<mapsto> Text ''302d73736563636:3031:6b'']\<rparr>))
     = Inl (Error (''Failed to load encrypted data: '' @ message (Error
         (''Decryption failed: The argument '' @ [CHR 0x27] @ ''encoding'' @ [CHR 0x27]
            @ '' is invalid for data of length 15. Received '' @ [CHR 0x27] @ ''hex''
            @ [CHR 0x27]))))"
proof -
  note A = C7_load_absent_or_broken
    [where p = TOKEN_FILE and s = example_state and N = example_node
       and J = "json_tokens example_node"]
  note B = C7_load_absent_or_broken
    [where p = TOKEN_FILE and N = example_node and J = "json_tokens example_node"
       and s = "example_state\<lparr>files := [TOKEN_FILE \<mapsto> Text ''302d737365636361:3031'']\<rparr>"]
  note C = C7_load_absent_or_broken
    [where p = TOKEN_FILE and N = example_node and J = "json_tokens example_node"
       and s = "example_state\<lparr>files := [TOKEN_FILE \<mapsto> Text ''302d73736563636:3031:6b'']\<rparr>"]
  from A ex_absent
  have 1: "loadEncryptedData example_node (json_tokens example_node) TOKEN_FILE example_state
     = (Inr None, example_state)"
    by blast
  from B ex_truncated
  have 2: "fst (loadEncryptedData example_node (json_tokens example_node) TOKEN_FILE
          (example_state\<lparr>files := [TOKEN_FILE \<mapsto> Text ''302d737365636361:3031'']\<rparr>))
     = Inl (Error (''Failed to load encrypted data: '' @ ''Unexpected token in JSON''))"
    by blast
  from C ex_odd
  have 3: "fst (loadEncryptedData example_node (json_tokens example_node) TOKEN_FILE
          (example_state\<lparr>files := [TOKEN_FILE \<mapsto> Text ''302d73736563636:3031:6b'']\<rparr>))
     = Inl (Error (''Failed to load encrypted data: '' @ message (Error
         (''Decryption failed: The argument '' @ [CHR 0x27] @ ''encoding'' @ [CHR 0x27]
            @ '' is invalid for data of length 15. Received '' @ [CHR 0x27] @ ''hex''
            @ [CHR 0x27]))))"
    by blast
  from 2 have b2: "fst (loadEncryptedData example_node (json_tokens example_node) TOKEN_FILE
          (example_state\<lparr>files := [TOKEN_FILE \<mapsto> Text ''302d737365636361:3031'']\<rparr>))
     = Inl (Error ''Failed to load encrypted data: Unexpected token in JSON'')"
    by simp
  from ex_absent 1 b2 3 show ?thesis by blast
qed

text \<open>
  C7 as stated fails: where the data directory should be there is a file, so the token
  file does not exist, and \<^verbatim>\<open>loadEncryptedData\<close> throws instead of returning \<^verbatim>\<open>null\<close>.
\<close>

theorem C7_missing_file_below_a_file:
  "files (example_state\<lparr>files := [DATA_DIR \<mapsto> Text ''x''], dirs := {}\<rparr>) DATA_DIR
     = Some (Text ''x'') \<and>
   files (example_state\<lparr>files := [DATA_DIR \<mapsto> Text ''x''], dirs := {}\<rparr>) TOKEN_FILE = None \<and>
   TOKEN_FILE \<notin> dirs (example_state\<lparr>files := [DATA_DIR \<mapsto> Text ''x''], dirs := {}\<rparr>) \<and>
   fst (loadEncryptedData example_node (json_tokens example_node) TOKEN_FILE
          (example_state\<lparr>files := [DATA_DIR \<mapsto> Text ''x''], dirs := {}\<rparr>))
     = Inl (Error (''Failed to load encrypted data: ENOTDIR: not a directory, open ''
              @ [CHR 0x27] @ ''data/tokens.enc'' @ [CHR 0x27]))"
  by code_simp

text \<open>A file in which \<^verbatim>\<open>null\<close> was stored exists, and loads as \<^verbatim>\<open>null\<close>.\<close>

lemma ex_stored_null:
  "fst (loadEncryptedData example_node (json_tokens example_node) TOKEN_FILE
          (snd (saveEncryptedData example_node (json_tokens example_node) TOKEN_FILE None
                  example_state)))
     = Inr None \<and>
   files (snd (saveEncryptedData example_node (json_tokens example_node) TOKEN_FILE None
                 example_state)) TOKEN_FILE
     \<noteq> None"
  by code_simp

subsection \<open>The steps of the manager\<close>

lemma saveTokens_frame:
  "tokens (snd (saveTokens N s)) = tokens s \<and>
   deviceCode (snd (saveTokens N s)) = deviceCode s \<and>
   requests (snd (saveTokens N s)) = requests s \<and>
   detached (snd (saveTokens N s)) = detached s \<and>
   clock (snd (saveTokens N s)) = clock s \<and>
   dirs (snd (saveTokens N s)) = dirs s \<and>
   machine_id (snd (saveTokens N s)) = machine_id s \<and>
   (\<forall>q. q \<noteq> TOKEN_FILE \<longrightarrow> files (snd (saveTokens N s)) q = files s q)"
proof (cases "tokens s")
  case None
  then show ?thesis by (simp add: saveTokens_def)
next
  case (Some t)
  then show ?thesis
    using saveEncryptedData_frame [of N "json_tokens N" TOKEN_FILE "Some t" s]
    by (simp add: saveTokens_def)
qed


lemma refresh_failed_eq:
  "refresh_failed N e s =
     (Inl (Error ''Token refresh failed. Please re-authenticate.''),
      (write_line (''Token refresh failed: '' @ message e) s)\<lparr>tokens := None\<rparr>)"
  by (simp add: refresh_failed_def saveTokens_def)

lemma refresh_no_token:
  "tokens s = None \<or> (\<exists>old. tokens s = Some old \<and> \<not> truthy (refresh_token old)) \<Longrightarrow>
   refreshAccessToken N r s
     = (Inl (Error ''No refresh token available. Please re-authenticate.''), s)"
  by (cases "tokens s") (auto simp: refreshAccessToken_def)

lemma refresh_rejected:
  assumes "tokens s = Some old" and "truthy (refresh_token old)" and "outcome r = Inl e"
  shows "refreshAccessToken N r s =
     (Inl (Error ''Token refresh failed. Please re-authenticate.''),
      (write_line (''Token refresh failed: '' @ message e)
         (s\<lparr>requests := requests s @ [RefreshTokenGrant (or_else (refresh_token old) [])],
             clock := clock s + int (latency r)\<rparr>))\<lparr>tokens := None\<rparr>)"
  using assms by (simp add: refreshAccessToken_def axios_post_def refresh_failed_eq)

text \<open>The token set that \<^verbatim>\<open>refreshAccessToken\<close> builds from an answer.\<close>

lemma refresh_answered:
  assumes "tokens s = Some old" and "truthy (refresh_token old)" and "outcome r = Inr data"
  shows "refreshAccessToken N r s =
     (case saveTokens N
             (s\<lparr>requests := requests s @ [RefreshTokenGrant (or_else (refresh_token old) [])],
                 clock := clock s + int (latency r),
                 tokens := Some \<lparr>access_token = access_token data,
                    refresh_token = (if truthy (refresh_token data) then refresh_token data
                                     else refresh_token old),
                    expires_in = expires_in data,
                    token_type = token_type data,
                    expires_at = clock s + int (latency r) + expires_in data * 1000\<rparr>\<rparr>) of
        (Inl e, s2) \<Rightarrow> refresh_failed N e s2
      | (Inr u, s2) \<Rightarrow> (Inr (), write_line ''Token refreshed successfully'' s2))"
  using assms
  by (simp add: refreshAccessToken_def axios_post_def split del: if_split cong: if_cong)


text \<open>What a call of \<^verbatim>\<open>refreshAccessToken\<close> that returns normally has done.\<close>

lemma refresh_returns:
  assumes ok: "fst (refreshAccessToken N r s) = Inr ()"
  shows "\<exists>old data. tokens s = Some old \<and> truthy (refresh_token old) \<and> outcome r = Inr data \<and>
           tokens (snd (refreshAccessToken N r s)) =
             Some \<lparr>access_token = access_token data,
                   refresh_token = (if truthy (refresh_token data) then refresh_token data
                                    else refresh_token old),
                   expires_in = expires_in data,
                   token_type = token_type data,
                   expires_at = clock s + int (latency r) + expires_in data * 1000\<rparr> \<and>
           requests (snd (refreshAccessToken N r s)) =
             requests s @ [RefreshTokenGrant (or_else (refresh_token old) [])]"
proof (cases "tokens s")
  case None
  with ok show ?thesis by (simp add: refresh_no_token)
next
  case (Some old)
  show ?thesis
  proof (cases "truthy (refresh_token old)")
    case False
    with Some have "refreshAccessToken N r s
       = (Inl (Error ''No refresh token available. Please re-authenticate.''), s)"
      by (intro refresh_no_token) simp
    with ok show ?thesis by simp
  next
    case True
    show ?thesis
    proof (cases "outcome r")
      case (Inl e)
      with ok show ?thesis by (simp add: refresh_rejected [OF Some True Inl])
    next
      case (Inr data)
      define new where "new = \<lparr>access_token = access_token data,
                    refresh_token = (if truthy (refresh_token data) then refresh_token data
                                     else refresh_token old),
                    expires_in = expires_in data,
                    token_type = token_type data,
                    expires_at = clock s + int (latency r) + expires_in data * 1000\<rparr>"
      define s1 where "s1 = s\<lparr>requests := requests s @ [RefreshTokenGrant (or_else (refresh_token old) [])],
                 clock := clock s + int (latency r), tokens := Some new\<rparr>"
      have eq: "refreshAccessToken N r s =
        (case saveTokens N s1 of
           (Inl e, s2) \<Rightarrow> refresh_failed N e s2
         | (Inr u, s2) \<Rightarrow> (Inr (), write_line ''Token refreshed successfully'' s2))"
        unfolding s1_def new_def by (rule refresh_answered [OF Some True Inr])
      obtain r2 s2 where sv: "saveTokens N s1 = (r2, s2)" by (cases "saveTokens N s1")
      have fr: "tokens s2 = tokens s1 \<and> requests s2 = requests s1"
        using saveTokens_frame [of N s1] by (simp add: sv)
      show ?thesis
      proof (cases r2)
        case (Inl e)
        with ok eq sv show ?thesis by (simp add: refresh_failed_eq)
      next
        case (Inr u)
        with eq sv have "snd (refreshAccessToken N r s) = write_line ''Token refreshed successfully'' s2"
          by simp
        then have "tokens (snd (refreshAccessToken N r s)) = Some new"
          and "requests (snd (refreshAccessToken N r s))
                 = requests s @ [RefreshTokenGrant (or_else (refresh_token old) [])]"
          using fr by (simp_all add: write_line_def s1_def)
        with Some True \<open>outcome r = Inr data\<close> show ?thesis
          unfolding new_def by blast
      qed
    qed
  qed
qed

subsection \<open>The steps of the polling loop\<close>

lemma loop_timeout:
  "\<not> attempts < MAX_POLL_ATTEMPTS \<Longrightarrow>
   pollForToken_loop N replies attempts s
     = (Inl (Error ''Authentication timeout. Please try again.''), s)"
  by (simp add: pollForToken_loop.simps [of N replies attempts s])

lemma loop_no_device:
  "attempts < MAX_POLL_ATTEMPTS \<Longrightarrow> deviceCode s = None \<Longrightarrow>
   fst (pollForToken_loop N replies attempts s)
     = Inl (Error (''Token polling failed: Cannot read properties of null (reading ''
             @ [CHR 0x27] @ ''device_code'' @ [CHR 0x27] @ '')'')) \<and>
   snd (pollForToken_loop N replies attempts s) = s"
  by (simp add: pollForToken_loop.simps [of N replies attempts s] poll_failed_def Error_def)

text \<open>The state after the request of one round of the loop.\<close>

lemma loop_pending:
  "attempts < MAX_POLL_ATTEMPTS \<Longrightarrow> deviceCode s = Some d \<Longrightarrow>
   outcome (replies attempts) = Inl e \<Longrightarrow> response_error e = Some ''authorization_pending'' \<Longrightarrow>
   pollForToken_loop N replies attempts s
     = pollForToken_loop N replies (Suc attempts)
         (sleep DEVICE_CODE_POLL_INTERVAL
            (snd (axios_post (DeviceCodeGrant (device_code d)) (replies attempts) s)))"
  by (simp add: pollForToken_loop.simps [of N replies attempts s] axios_post_def)

lemma loop_error:
  "attempts < MAX_POLL_ATTEMPTS \<Longrightarrow> deviceCode s = Some d \<Longrightarrow>
   outcome (replies attempts) = Inl e \<Longrightarrow> response_error e \<noteq> Some ''authorization_pending'' \<Longrightarrow>
   pollForToken_loop N replies attempts s
     = (Inl (poll_failed e),
        snd (axios_post (DeviceCodeGrant (device_code d)) (replies attempts) s))"
  by (simp add: pollForToken_loop.simps [of N replies attempts s] axios_post_def)

lemma loop_answered:
  "attempts < MAX_POLL_ATTEMPTS \<Longrightarrow> deviceCode s = Some d \<Longrightarrow>
   outcome (replies attempts) = Inr data \<Longrightarrow>
   pollForToken_loop N replies attempts s
     = (case saveTokens N
              (s\<lparr>requests := requests s @ [DeviceCodeGrant (device_code d)],
                  clock := clock s + int (latency (replies attempts)),
                  tokens := Some \<lparr>access_token = access_token data,
                     refresh_token = refresh_token data,
                     expires_in = expires_in data,
                     token_type = token_type data,
                     expires_at = clock s + int (latency (replies attempts))
                                    + expires_in data * 1000\<rparr>\<rparr>) of
          (Inl e, s2) \<Rightarrow> (Inl (poll_failed e), s2)
        | (Inr u, s2) \<Rightarrow> (Inr (), write_line ''Authentication successful!'' s2))"
  by (simp add: pollForToken_loop.simps [of N replies attempts s] axios_post_def)



text \<open>Induction along the rounds of the loop, for a fixed sequence of replies.\<close>

lemma poll_rounds_induct:
  fixes replies :: "nat \<Rightarrow> token_response reply"
  assumes step: "\<And>attempts s.
      (\<And>d e. attempts < MAX_POLL_ATTEMPTS \<Longrightarrow> deviceCode s = Some d \<Longrightarrow>
         outcome (replies attempts) = Inl e \<Longrightarrow>
         response_error e = Some ''authorization_pending'' \<Longrightarrow>
         P (Suc attempts)
           (sleep DEVICE_CODE_POLL_INTERVAL
              (snd (axios_post (DeviceCodeGrant (device_code d)) (replies attempts) s))))
      \<Longrightarrow> P attempts s"
  shows "P attempts s"
proof -
  have "replies' = replies \<longrightarrow> P attempts s"
    for N :: node and replies' :: "nat \<Rightarrow> token_response reply"
  proof (induction N replies' attempts s rule: pollForToken_loop.induct)
    case (1 N replies' attempts s)
    show ?case
    proof
      assume r: "replies' = replies"
      show "P attempts s"
      proof (rule step)
        fix d e
        assume a: "attempts < MAX_POLL_ATTEMPTS" "deviceCode s = Some d"
          "outcome (replies attempts) = Inl e"
          "response_error e = Some ''authorization_pending''"
        have "(Inl e, snd (axios_post (DeviceCodeGrant (device_code d)) (replies' attempts) s))
                = axios_post (DeviceCodeGrant (device_code d)) (replies' attempts) s"
          using a(3) r by (simp add: axios_post_def)
        from "1.IH" [OF a(1,2) this refl a(4)] r
        show "P (Suc attempts)
           (sleep DEVICE_CODE_POLL_INTERVAL
              (snd (axios_post (DeviceCodeGrant (device_code d)) (replies attempts) s)))"
          by simp
      qed
    qed
  qed
  then show ?thesis by simp
qed

lemma axios_post_frame:
  "tokens (snd (axios_post q r s)) = tokens s \<and>
   deviceCode (snd (axios_post q r s)) = deviceCode s \<and>
   detached (snd (axios_post q r s)) = detached s \<and>
   dirs (snd (axios_post q r s)) = dirs s \<and>
   machine_id (snd (axios_post q r s)) = machine_id s \<and>
   files (snd (axios_post q r s)) = files s \<and>
   requests (snd (axios_post q r s)) = requests s @ [q] \<and>
   clock (snd (axios_post q r s)) = clock s + int (latency r)"
  by (simp add: axios_post_def)

lemma sleep_frame:
  "tokens (sleep ms s) = tokens s \<and> deviceCode (sleep ms s) = deviceCode s \<and>
   detached (sleep ms s) = detached s \<and> dirs (sleep ms s) = dirs s \<and>
   machine_id (sleep ms s) = machine_id s \<and> files (sleep ms s) = files s \<and>
   requests (sleep ms s) = requests s \<and> clock (sleep ms s) = clock s + ms"
  by (simp add: sleep_def)

text \<open>What no run of the loop changes.\<close>

lemma poll_loop_frame:
  "deviceCode (snd (pollForToken_loop N replies attempts s)) = deviceCode s \<and>
   detached (snd (pollForToken_loop N replies attempts s)) = detached s \<and>
   (\<forall>q. q \<noteq> TOKEN_FILE \<longrightarrow> files (snd (pollForToken_loop N replies attempts s)) q = files s q)"
proof (induction attempts s rule: poll_rounds_induct [where replies = replies])
  case (1 attempts s)
  show ?case
  proof (cases "attempts < MAX_POLL_ATTEMPTS")
    case False
    then show ?thesis by (simp add: loop_timeout)
  next
    case True
    show ?thesis
    proof (cases "deviceCode s")
      case None
      with True show ?thesis by (simp add: loop_no_device)
    next
      case (Some d)
      show ?thesis
      proof (cases "outcome (replies attempts)")
        case (Inr data)
        define s1 where "s1 = s\<lparr>requests := requests s @ [DeviceCodeGrant (device_code d)],
                  clock := clock s + int (latency (replies attempts)),
                  tokens := Some \<lparr>access_token = access_token data,
                     refresh_token = refresh_token data,
                     expires_in = expires_in data,
                     token_type = token_type data,
                     expires_at = clock s + int (latency (replies attempts))
                                    + expires_in data * 1000\<rparr>\<rparr>"
        obtain r2 s2 where sv: "saveTokens N s1 = (r2, s2)" by (cases "saveTokens N s1")
        have "deviceCode s2 = deviceCode s1 \<and> detached s2 = detached s1 \<and>
                  (\<forall>q. q \<noteq> TOKEN_FILE \<longrightarrow> files s2 q = files s1 q)"
          using saveTokens_frame [of N s1] by (simp add: sv)
        moreover have "deviceCode s1 = deviceCode s \<and> detached s1 = detached s \<and>
                  files s1 = files s"
          by (simp add: s1_def)
        ultimately have fr: "deviceCode s2 = deviceCode s \<and> detached s2 = detached s \<and>
                  (\<forall>q. q \<noteq> TOKEN_FILE \<longrightarrow> files s2 q = files s q)"
          by simp
        have "snd (pollForToken_loop N replies attempts s) = s2 \<or>
              snd (pollForToken_loop N replies attempts s)
                = write_line ''Authentication successful!'' s2"
          using loop_answered [where replies = replies and N = N, OF True Some Inr] sv
          by (cases r2) (simp_all add: s1_def)
        with fr show ?thesis by (auto simp: write_line_def)
      next
        case (Inl e)
        show ?thesis
        proof (cases "response_error e = Some ''authorization_pending''")
          case False
          with loop_error [where replies = replies and N = N, OF True Some Inl] show ?thesis
            by (simp add: axios_post_frame)
        next
          case pending: True
          from "1" [OF True Some Inl pending] loop_pending [where replies = replies and N = N, OF True Some Inl pending]
          show ?thesis
            by (simp add: axios_post_frame sleep_frame)
        qed
      qed
    qed
  qed
qed


lemma saveEncryptedData_error:
  assumes "fst (saveEncryptedData N J p x s) = Inl e"
  shows "e = Error (''Failed to save encrypted data: '' @ drop 31 (message e))"
proof -
  obtain r0 s0 where en: "encrypt N J x s = (r0, s0)" by (cases "encrypt N J x s")
  show ?thesis
  proof (cases r0)
    case (Inl e0)
    with assms en show ?thesis
      by (auto simp: saveEncryptedData_def save_failed_def Error_def)
  next
    case (Inr b)
    obtain r1 s1 where w: "writeFile p (stringify (json_blob N) b) s0 = (r1, s1)"
      by (cases "writeFile p (stringify (json_blob N) b) s0")
    with assms en Inr show ?thesis
      by (cases r1) (auto simp: saveEncryptedData_def save_failed_def Error_def)
  qed
qed

lemma saveTokens_error:
  assumes "fst (saveTokens N s) = Inl e"
  shows "poll_failed e
           = Error (''Token polling failed: Failed to save encrypted data: ''
                      @ drop 31 (message e))"
proof (cases "tokens s")
  case None
  with assms show ?thesis by (simp add: saveTokens_def)
next
  case (Some t)
  with assms have "fst (saveEncryptedData N (json_tokens N) TOKEN_FILE (Some t) s) = Inl e"
    by (simp add: saveTokens_def)
  from saveEncryptedData_error [OF this]
  have e: "e = Error (''Failed to save encrypted data: '' @ drop 31 (message e))" .
  have "poll_failed (Error m) = Error (''Token polling failed: '' @ m)" for m
    by (simp add: poll_failed_def Error_def)
  from this [of "''Failed to save encrypted data: '' @ drop 31 (message e)"] e
  show ?thesis by simp
qed

text \<open>The three errors with which the loop gives up on the device flow.\<close>

lemma poll_failed_gives_up:
  "poll_failed e = Error ''Authorization was declined by the user'' \<or>
   poll_failed e = Error ''Device code expired. Please try again.'' \<or>
   poll_failed e = Error ''Authentication timeout. Please try again.'' \<Longrightarrow>
   response_error e = Some ''authorization_declined'' \<or> response_error e = Some ''expired_token''"
  by (auto simp: poll_failed_def Error_def split: if_splits)

text \<open>A run of the loop that returns normally has stored the token set of an answer.\<close>

lemma poll_loop_returns:
  "fst (pollForToken_loop N replies attempts s) = Inr () \<longrightarrow>
   (\<exists>k data. attempts \<le> k \<and> k < MAX_POLL_ATTEMPTS \<and> outcome (replies k) = Inr data \<and>
      tokens (snd (pollForToken_loop N replies attempts s)) =
        Some \<lparr>access_token = access_token data,
              refresh_token = refresh_token data,
              expires_in = expires_in data,
              token_type = token_type data,
              expires_at = clock (snd (pollForToken_loop N replies attempts s))
                             + expires_in data * 1000\<rparr>)"
proof (induction attempts s rule: poll_rounds_induct [where replies = replies])
  case (1 attempts s)
  show ?case
  proof (cases "attempts < MAX_POLL_ATTEMPTS")
    case False
    then show ?thesis by (simp add: loop_timeout)
  next
    case True
    show ?thesis
    proof (cases "deviceCode s")
      case None
      with True show ?thesis by (simp add: loop_no_device)
    next
      case (Some d)
      show ?thesis
      proof (cases "outcome (replies attempts)")
        case (Inr data)
        define new where "new = \<lparr>access_token = access_token data,
                     refresh_token = refresh_token data,
                     expires_in = expires_in data,
                     token_type = token_type data,
                     expires_at = clock s + int (latency (replies attempts))
                                    + expires_in data * 1000\<rparr>"
        define s1 where "s1 = s\<lparr>requests := requests s @ [DeviceCodeGrant (device_code d)],
                  clock := clock s + int (latency (replies attempts)),
                  tokens := Some new\<rparr>"
        have eq: "pollForToken_loop N replies attempts s
          = (case saveTokens N s1 of
               (Inl e, s2) \<Rightarrow> (Inl (poll_failed e), s2)
             | (Inr u, s2) \<Rightarrow> (Inr (), write_line ''Authentication successful!'' s2))"
          unfolding s1_def new_def
          by (rule loop_answered [where replies = replies and N = N, OF True Some Inr])
        obtain r2 s2 where sv: "saveTokens N s1 = (r2, s2)" by (cases "saveTokens N s1")
        have "tokens s2 = tokens s1 \<and> clock s2 = clock s1"
          using saveTokens_frame [of N s1] by (simp add: sv)
        moreover have "tokens s1 = Some new" and "clock s1 = clock s + int (latency (replies attempts))"
          by (simp_all add: s1_def)
        ultimately have fr: "tokens s2 = Some new"
          "clock s2 = clock s + int (latency (replies attempts))"
          by simp_all
        show ?thesis
        proof (cases r2)
          case (Inl e)
          with eq sv show ?thesis by simp
        next
          case r2: (Inr u)
          with eq sv have "snd (pollForToken_loop N replies attempts s)
              = write_line ''Authentication successful!'' s2"
            by simp
          then have "tokens (snd (pollForToken_loop N replies attempts s)) = Some new"
            and "clock (snd (pollForToken_loop N replies attempts s))
                   = clock s + int (latency (replies attempts))"
            using fr by (simp_all add: write_line_def)
          then have "tokens (snd (pollForToken_loop N replies attempts s)) =
             Some \<lparr>access_token = access_token data,
              refresh_token = refresh_token data,
              expires_in = expires_in data,
              token_type = token_type data,
              expires_at = clock (snd (pollForToken_loop N replies attempts s))
                             + expires_in data * 1000\<rparr>"
            by (simp add: new_def)
          with True Inr show ?thesis by blast
        qed
      next
        case (Inl e)
        show ?thesis
        proof (cases "response_error e = Some ''authorization_pending''")
          case False
          with loop_error [where replies = replies and N = N, OF True Some Inl] show ?thesis
            by simp
        next
          case pending: True
          note eq = loop_pending [where replies = replies and N = N, OF True Some Inl pending]
          show ?thesis
          proof
            assume "fst (pollForToken_loop N replies attempts s) = Inr ()"
            with eq "1" [OF True Some Inl pending]
            obtain k data where "Suc attempts \<le> k" "k < MAX_POLL_ATTEMPTS"
              "outcome (replies k) = Inr data"
              "tokens (snd (pollForToken_loop N replies attempts s)) =
                 Some \<lparr>access_token = access_token data,
                   refresh_token = refresh_token data,
                   expires_in = expires_in data,
                   token_type = token_type data,
                   expires_at = clock (snd (pollForToken_loop N replies attempts s))
                             + expires_in data * 1000\<rparr>"
              by auto
            then show "\<exists>k data. attempts \<le> k \<and> k < MAX_POLL_ATTEMPTS \<and>
              outcome (replies k) = Inr data \<and>
              tokens (snd (pollForToken_loop N replies attempts s)) =
                 Some \<lparr>access_token = access_token data,
                   refresh_token = refresh_token data,
                   expires_in = expires_in data,
                   token_type = token_type data,
                   expires_at = clock (snd (pollForToken_loop N replies attempts s))
                             + expires_in data * 1000\<rparr>"
              by (intro exI [of _ k] exI [of _ data]) simp
          qed
        qed
      qed
    qed
  qed
qed

subsection \<open>C8: the expiry time of every token set that is issued\<close>

text \<open>
  C8. Both paths that issue a token set build it whole from the answer of the server,
  with \<^verbatim>\<open>expires_at\<close> equal to the time at which the answer arrived plus
  \<^verbatim>\<open>expires_in * 1000\<close>. When \<^verbatim>\<open>refreshAccessToken\<close> returns normally, the server has
  answered and \<^verbatim>\<open>this.tokens\<close> is the record of that answer (with the old refresh token
  where the answer brings none), expiring \<^verbatim>\<open>expires_in * 1000\<close> after the arrival of the
  answer. When \<^verbatim>\<open>pollForToken\<close> returns normally, one of its requests has been answered
  and \<^verbatim>\<open>this.tokens\<close> is the record of that answer, expiring \<^verbatim>\<open>expires_in * 1000\<close> after
  the time at which the poll completed.
\<close>

theorem C8_expires_at_on_issuance:
  "(fst (refreshAccessToken N r s) = Inr () \<longrightarrow>
      (\<exists>old data. tokens s = Some old \<and> outcome r = Inr data \<and>
         tokens (snd (refreshAccessToken N r s)) =
           Some \<lparr>access_token = access_token data,
                 refresh_token = (if truthy (refresh_token data) then refresh_token data
                                  else refresh_token old),
                 expires_in = expires_in data,
                 token_type = token_type data,
                 expires_at = clock s + int (latency r) + expires_in data * 1000\<rparr>)) \<and>
   (fst (pollForToken N replies s) = Inr () \<longrightarrow>
      (\<exists>k data. k < MAX_POLL_ATTEMPTS \<and> outcome (replies k) = Inr data \<and>
         tokens (snd (pollForToken N replies s)) =
           Some \<lparr>access_token = access_token data,
                 refresh_token = refresh_token data,
                 expires_in = expires_in data,
                 token_type = token_type data,
                 expires_at = clock (snd (pollForToken N replies s))
                                + expires_in data * 1000\<rparr>))"
proof (intro conjI impI)
  assume "fst (refreshAccessToken N r s) = Inr ()"
  from refresh_returns [OF this]
  show "\<exists>old data. tokens s = Some old \<and> outcome r = Inr data \<and>
         tokens (snd (refreshAccessToken N r s)) =
           Some \<lparr>access_token = access_token data,
                 refresh_token = (if truthy (refresh_token data) then refresh_token data
                                  else refresh_token old),
                 expires_in = expires_in data,
                 token_type = token_type data,
                 expires_at = clock s + int (latency r) + expires_in data * 1000\<rparr>"
    by blast
next
  assume "fst (pollForToken N replies s) = Inr ()"
  with poll_loop_returns [of N replies 0 s]
  show "\<exists>k data. k < MAX_POLL_ATTEMPTS \<and> outcome (replies k) = Inr data \<and>
         tokens (snd (pollForToken N replies s)) =
           Some \<lparr>access_token = access_token data,
                 refresh_token = refresh_token data,
                 expires_in = expires_in data,
                 token_type = token_type data,
                 expires_at = clock (snd (pollForToken N replies s))
                                + expires_in data * 1000\<rparr>"
    unfolding pollForToken_def by blast
qed

lemma ex_refresh:
  "fst (refreshAccessToken example_node (success example_response)
          (example_state\<lparr>tokens := Some example_tokens\<rparr>)) = Inr () \<and>
   tokens (snd (refreshAccessToken example_node (success example_response)
          (example_state\<lparr>tokens := Some example_tokens\<rparr>)))
     = Some \<lparr>access_token = ''access-1'', refresh_token = Some ''refresh-0'',
             expires_in = 3600, token_type = ''Bearer'', expires_at = 1000100 + 3600000\<rparr>"
  by code_simp

lemma ex_poll:
  "fst (pollForToken example_node
          (\<lambda>i. if i < 2 then server_error ''authorization_pending''
                else success example_response)
          (example_state\<lparr>deviceCode := Some example_device\<rparr>)) = Inr () \<and>
   tokens (snd (pollForToken example_node
          (\<lambda>i. if i < 2 then server_error ''authorization_pending''
                else success example_response)
          (example_state\<lparr>deviceCode := Some example_device\<rparr>)))
     = Some \<lparr>access_token = ''access-1'', refresh_token = None,
             expires_in = 3600, token_type = ''Bearer'', expires_at = 1010300 + 3600000\<rparr> \<and>
   clock (snd (pollForToken example_node
          (\<lambda>i. if i < 2 then server_error ''authorization_pending''
                else success example_response)
          (example_state\<lparr>deviceCode := Some example_device\<rparr>))) = 1010300"
  by code_simp


theorem C8_expires_at_on_issuance_witness:
  "fst (refreshAccessToken example_node (success example_response)
          (example_state\<lparr>tokens := Some example_tokens\<rparr>)) = Inr () \<and>
   (\<exists>old data. tokens (example_state\<lparr>tokens := Some example_tokens\<rparr>) = Some old \<and>
      outcome (success example_response) = Inr data \<and>
      tokens (snd (refreshAccessToken example_node (success example_response)
                (example_state\<lparr>tokens := Some example_tokens\<rparr>))) =
        Some \<lparr>access_token = access_token data,
              refresh_token = (if truthy (refresh_token data) then refresh_token data
                               else refresh_token old),
              expires_in = expires_in data,
              token_type = token_type data,
              expires_at = clock (example_state\<lparr>tokens := Some example_tokens\<rparr>)
                + int (latency (success example_response :: token_response reply))
                + expires_in data * 1000\<rparr>) \<and>
   fst (pollForToken example_node
          (\<lambda>i. if i < 2 then server_error ''authorization_pending''
                else success example_response)
          (example_state\<lparr>deviceCode := Some example_device\<rparr>)) = Inr () \<and>
   (\<exists>k data. k < MAX_POLL_ATTEMPTS \<and>
      outcome (if k < 2 then server_error ''authorization_pending''
               else success example_response) = Inr data \<and>
      tokens (snd (pollForToken example_node
          (\<lambda>i. if i < 2 then server_error ''authorization_pending''
                else success example_response)
          (example_state\<lparr>deviceCode := Some example_device\<rparr>))) =
        Some \<lparr>access_token = access_token data,
              refresh_token = refresh_token data,
              expires_in = expires_in data,
              token_type = token_type data,
              expires_at = clock (snd (pollForToken example_node
                  (\<lambda>i. if i < 2 then server_error ''authorization_pending''
                        else success example_response)
                  (example_state\<lparr>deviceCode := Some example_device\<rparr>)))
                + expires_in data * 1000\<rparr>)"
proof -
  note a = ex_refresh [THEN conjunct1]
  note b = ex_poll [THEN conjunct1]
  note t = C8_expires_at_on_issuance
    [where N = example_node and r = "success example_response"
       and s = "example_state\<lparr>tokens := Some example_tokens\<rparr>"]
  note u = C8_expires_at_on_issuance
    [where N = example_node
       and replies = "\<lambda>i. if i < 2 then server_error ''authorization_pending''
                          else success example_response"
       and s = "example_state\<lparr>deviceCode := Some example_device\<rparr>"]
  from t have "fst (refreshAccessToken example_node (success example_response)
                 (example_state\<lparr>tokens := Some example_tokens\<rparr>)) = Inr () \<longrightarrow>
    (\<exists>old data. tokens (example_state\<lparr>tokens := Some example_tokens\<rparr>) = Some old \<and>
      outcome (success example_response) = Inr data \<and>
      tokens (snd (refreshAccessToken example_node (success example_response)
                (example_state\<lparr>tokens := Some example_tokens\<rparr>))) =
        Some \<lparr>access_token = access_token data,
              refresh_token = (if truthy (refresh_token data) then refresh_token data
                               else refresh_token old),
              expires_in = expires_in data,
              token_type = token_type data,
              expires_at = clock (example_state\<lparr>tokens := Some example_tokens\<rparr>)
                + int (latency (success example_response :: token_response reply))
                + expires_in data * 1000\<rparr>)"
    by (rule conjunct1)
  with a have 1: "\<exists>old data. tokens (example_state\<lparr>tokens := Some example_tokens\<rparr>) = Some old \<and>
      outcome (success example_response) = Inr data \<and>
      tokens (snd (refreshAccessToken example_node (success example_response)
                (example_state\<lparr>tokens := Some example_tokens\<rparr>))) =
        Some \<lparr>access_token = access_token data,
              refresh_token = (if truthy (refresh_token data) then refresh_token data
                               else refresh_token old),
              expires_in = expires_in data,
              token_type = token_type data,
              expires_at = clock (example_state\<lparr>tokens := Some example_tokens\<rparr>)
                + int (latency (success example_response :: token_response reply))
                + expires_in data * 1000\<rparr>"
    by (rule rev_mp)
  from u [THEN conjunct2] b have 2: "\<exists>k data. k < MAX_POLL_ATTEMPTS \<and>
      outcome (if k < 2 then server_error ''authorization_pending''
               else success example_response) = Inr data \<and>
      tokens (snd (pollForToken example_node
          (\<lambda>i. if i < 2 then server_error ''authorization_pending''
                else success example_response)
          (example_state\<lparr>deviceCode := Some example_device\<rparr>))) =
        Some \<lparr>access_token = access_token data,
              refresh_token = refresh_token data,
              expires_in = expires_in data,
              token_type = token_type data,
              expires_at = clock (snd (pollForToken example_node
                  (\<lambda>i. if i < 2 then server_error ''authorization_pending''
                        else success example_response)
                  (example_state\<lparr>deviceCode := Some example_device\<rparr>)))
                + expires_in data * 1000\<rparr>"
    by (rule mp)
  from a 1 b 2 show ?thesis by (intro conjI)
qed

subsection \<open>C3: a token about to expire is refreshed before it is returned\<close>

text \<open>The requests of a call of \<^verbatim>\<open>refreshAccessToken\<close>: one, if a refresh token is held.\<close>

lemma refresh_requests:
  assumes t: "tokens s = Some t"
  shows "requests (snd (refreshAccessToken N r s))
           = requests s @ (if truthy (refresh_token t)
                           then [RefreshTokenGrant (or_else (refresh_token t) [])] else [])"
proof (cases "truthy (refresh_token t)")
  case False
  with t have "refreshAccessToken N r s
       = (Inl (Error ''No refresh token available. Please re-authenticate.''), s)"
    by (intro refresh_no_token) simp
  with False show ?thesis by simp
next
  case True
  show ?thesis
  proof (cases "outcome r")
    case (Inl e)
    with True show ?thesis
      by (simp add: refresh_rejected [OF t True Inl] write_line_def)
  next
    case (Inr data)
    define s1 where "s1 = s\<lparr>requests := requests s @ [RefreshTokenGrant (or_else (refresh_token t) [])],
                 clock := clock s + int (latency r),
                 tokens := Some \<lparr>access_token = access_token data,
                    refresh_token = (if truthy (refresh_token data) then refresh_token data
                                     else refresh_token t),
                    expires_in = expires_in data,
                    token_type = token_type data,
                    expires_at = clock s + int (latency r) + expires_in data * 1000\<rparr>\<rparr>"
    have eq: "refreshAccessToken N r s =
        (case saveTokens N s1 of
           (Inl e, s2) \<Rightarrow> refresh_failed N e s2
         | (Inr u, s2) \<Rightarrow> (Inr (), write_line ''Token refreshed successfully'' s2))"
      unfolding s1_def by (rule refresh_answered [OF t True Inr])
    obtain r2 s2 where sv: "saveTokens N s1 = (r2, s2)" by (cases "saveTokens N s1")
    have "requests s2 = requests s1"
      using saveTokens_frame [of N s1] by (simp add: sv)
    moreover have "requests s1 = requests s @ [RefreshTokenGrant (or_else (refresh_token t) [])]"
      by (simp add: s1_def)
    ultimately have "requests s2 = requests s @ [RefreshTokenGrant (or_else (refresh_token t) [])]"
      by simp
    with eq sv True show ?thesis
      by (cases r2) (simp_all add: refresh_failed_eq write_line_def)
  qed
qed

text \<open>What \<^verbatim>\<open>refreshAccessToken\<close> does with an answer, by the outcome of \<^verbatim>\<open>saveTokens\<close>.\<close>

lemma refresh_saved:
  assumes t: "tokens s = Some old" and rt: "truthy (refresh_token old)"
    and d: "outcome r = Inr data"
  shows "(fst (saveTokens N
            (s\<lparr>requests := requests s @ [RefreshTokenGrant (or_else (refresh_token old) [])],
                clock := clock s + int (latency r),
                tokens := Some \<lparr>access_token = access_token data,
                   refresh_token = (if truthy (refresh_token data) then refresh_token data
                                    else refresh_token old),
                   expires_in = expires_in data,
                   token_type = token_type data,
                   expires_at = clock s + int (latency r) + expires_in data * 1000\<rparr>\<rparr>)) = Inr ()
          \<longrightarrow> fst (refreshAccessToken N r s) = Inr () \<and>
              tokens (snd (refreshAccessToken N r s)) =
                Some \<lparr>access_token = access_token data,
                   refresh_token = (if truthy (refresh_token data) then refresh_token data
                                    else refresh_token old),
                   expires_in = expires_in data,
                   token_type = token_type data,
                   expires_at = clock s + int (latency r) + expires_in data * 1000\<rparr>) \<and>
         (\<forall>e. fst (saveTokens N
            (s\<lparr>requests := requests s @ [RefreshTokenGrant (or_else (refresh_token old) [])],
                clock := clock s + int (latency r),
                tokens := Some \<lparr>access_token = access_token data,
                   refresh_token = (if truthy (refresh_token data) then refresh_token data
                                    else refresh_token old),
                   expires_in = expires_in data,
                   token_type = token_type data,
                   expires_at = clock s + int (latency r) + expires_in data * 1000\<rparr>\<rparr>)) = Inl e
          \<longrightarrow> fst (refreshAccessToken N r s)
                = Inl (Error ''Token refresh failed. Please re-authenticate.'') \<and>
              tokens (snd (refreshAccessToken N r s)) = None)"
proof -
  define new where "new = \<lparr>access_token = access_token data,
                   refresh_token = (if truthy (refresh_token data) then refresh_token data
                                    else refresh_token old),
                   expires_in = expires_in data,
                   token_type = token_type data,
                   expires_at = clock s + int (latency r) + expires_in data * 1000\<rparr>"
  define s1 where "s1 = s\<lparr>requests := requests s @ [RefreshTokenGrant (or_else (refresh_token old) [])],
                clock := clock s + int (latency r), tokens := Some new\<rparr>"
  have eq: "refreshAccessToken N r s =
        (case saveTokens N s1 of
           (Inl e, s2) \<Rightarrow> refresh_failed N e s2
         | (Inr u, s2) \<Rightarrow> (Inr (), write_line ''Token refreshed successfully'' s2))"
    unfolding s1_def new_def by (rule refresh_answered [OF t rt d])
  obtain r2 s2 where sv: "saveTokens N s1 = (r2, s2)" by (cases "saveTokens N s1")
  have "tokens s2 = tokens s1"
    using saveTokens_frame [of N s1] by (simp add: sv)
  then have fr: "tokens s2 = Some new" by (simp add: s1_def)
  have a: "fst (refreshAccessToken N r s) = Inr () \<and>
           tokens (snd (refreshAccessToken N r s)) = Some new"
    if "fst (saveTokens N s1) = Inr ()"
  proof -
    from that sv have "r2 = Inr ()" by simp
    with eq sv fr show ?thesis by (simp add: write_line_def)
  qed
  have b: "fst (refreshAccessToken N r s)
                = Inl (Error ''Token refresh failed. Please re-authenticate.'') \<and>
           tokens (snd (refreshAccessToken N r s)) = None"
    if "fst (saveTokens N s1) = Inl e" for e
  proof -
    from that sv have "r2 = Inl e" by simp
    with eq sv show ?thesis by (simp add: refresh_failed_eq)
  qed
  from a b show ?thesis unfolding s1_def new_def by blast
qed

text \<open>
  C3, as the code has it. The buffer is five minutes. For a held token set outside the
  buffer, \<^verbatim>\<open>getValidAccessToken\<close> returns the cached access token and changes nothing:
  no refresh, no request. For a held token set with
  \<^verbatim>\<open>now >= expires_at - TOKEN_EXPIRY_BUFFER\<close> it calls \<^verbatim>\<open>refreshAccessToken\<close> once.
  \<^item> When the token set has no refresh token, no request is sent: the call throws
    \<^verbatim>\<open>No refresh token available. Please re-authenticate.\<close> and the token set stays as
    it is.
  \<^item> When it has one, exactly one refresh request is sent. If the request is answered
    and the new token set is saved, the call returns the access token of the answer and
    holds the new token set. If the request fails, or the new token set cannot be
    saved, the call throws \<^verbatim>\<open>Token refresh failed. Please re-authenticate.\<close> and no
    token set is held.
\<close>

theorem C3_refresh_before_return:
  "TOKEN_EXPIRY_BUFFER = 5 * 60 * 1000 \<and>
   (tokens s = Some t \<and> clock s < expires_at t - TOKEN_EXPIRY_BUFFER \<longrightarrow>
      getValidAccessToken N dr tr s = (Inr (access_token t), s)) \<and>
   (tokens s = Some t \<and> clock s \<ge> expires_at t - TOKEN_EXPIRY_BUFFER \<and>
    \<not> truthy (refresh_token t) \<longrightarrow>
      getValidAccessToken N dr tr s =
        (Inl (Error ''No refresh token available. Please re-authenticate.''),
         write_line ''Token expired or about to expire, refreshing...'' s)) \<and>
   (tokens s = Some t \<and> clock s \<ge> expires_at t - TOKEN_EXPIRY_BUFFER \<and>
    truthy (refresh_token t) \<longrightarrow>
      requests (snd (getValidAccessToken N dr tr s))
        = requests s @ [RefreshTokenGrant (or_else (refresh_token t) [])] \<and>
      (\<forall>e. outcome tr = Inl e \<longrightarrow>
         fst (getValidAccessToken N dr tr s)
           = Inl (Error ''Token refresh failed. Please re-authenticate.'') \<and>
         tokens (snd (getValidAccessToken N dr tr s)) = None) \<and>
      (\<forall>data. outcome tr = Inr data \<longrightarrow>
         (let new = \<lparr>access_token = access_token data,
                     refresh_token = (if truthy (refresh_token data) then refresh_token data
                                      else refresh_token t),
                     expires_in = expires_in data,
                     token_type = token_type data,
                     expires_at = clock s + int (latency tr) + expires_in data * 1000\<rparr>;
              answered = (write_line ''Token expired or about to expire, refreshing...'' s)
                 \<lparr>requests := requests s @ [RefreshTokenGrant (or_else (refresh_token t) [])],
                  clock := clock s + int (latency tr),
                  tokens := Some new\<rparr>
          in (fst (saveTokens N answered) = Inr () \<longrightarrow>
                fst (getValidAccessToken N dr tr s) = Inr (access_token data) \<and>
                tokens (snd (getValidAccessToken N dr tr s)) = Some new) \<and>
             (\<forall>e. fst (saveTokens N answered) = Inl e \<longrightarrow>
                fst (getValidAccessToken N dr tr s)
                  = Inl (Error ''Token refresh failed. Please re-authenticate.'') \<and>
                tokens (snd (getValidAccessToken N dr tr s)) = None))))"
proof -
  have buffer: "TOKEN_EXPIRY_BUFFER = 5 * 60 * 1000" by (simp add: TOKEN_EXPIRY_BUFFER_def)
  have fresh: "getValidAccessToken N dr tr s = (Inr (access_token t), s)"
    if "tokens s = Some t \<and> clock s < expires_at t - TOKEN_EXPIRY_BUFFER"
    using that by (simp add: getValidAccessToken_def tokens_field_def)
  define s0 where "s0 = write_line ''Token expired or about to expire, refreshing...'' s"
  have q0: "requests s0 = requests s" and c0: "clock s0 = clock s"
    by (simp_all add: s0_def write_line_def)
  have eq: "getValidAccessToken N dr tr s =
        (case refreshAccessToken N tr s0 of
           (Inl e, s') \<Rightarrow> (Inl e, s')
         | (Inr u, s') \<Rightarrow> (tokens_field access_token ''access_token'' s', s'))"
    and t0: "tokens s0 = Some t"
    if "tokens s = Some t" and "clock s \<ge> expires_at t - TOKEN_EXPIRY_BUFFER"
    using that by (simp_all add: getValidAccessToken_def tokens_field_def s0_def write_line_def)
  have thrown: "fst (getValidAccessToken N dr tr s) = Inl e \<and>
                tokens (snd (getValidAccessToken N dr tr s)) = None"
    if "tokens s = Some t" and "clock s \<ge> expires_at t - TOKEN_EXPIRY_BUFFER"
      and "fst (refreshAccessToken N tr s0) = Inl e"
      and "tokens (snd (refreshAccessToken N tr s0)) = None" for e
  proof -
    obtain r1 s1 where rf: "refreshAccessToken N tr s0 = (r1, s1)"
      by (cases "refreshAccessToken N tr s0")
    with that(3,4) have "r1 = Inl e" and "tokens s1 = None" by simp_all
    with eq [OF that(1,2)] rf show ?thesis by simp
  qed
  have none: "getValidAccessToken N dr tr s =
        (Inl (Error ''No refresh token available. Please re-authenticate.''),
         write_line ''Token expired or about to expire, refreshing...'' s)"
    if h: "tokens s = Some t \<and> clock s \<ge> expires_at t - TOKEN_EXPIRY_BUFFER \<and>
           \<not> truthy (refresh_token t)"
  proof -
    from h have a: "tokens s = Some t" "clock s \<ge> expires_at t - TOKEN_EXPIRY_BUFFER"
      and f: "\<not> truthy (refresh_token t)" by simp_all
    from t0 [OF a] f have "refreshAccessToken N tr s0
       = (Inl (Error ''No refresh token available. Please re-authenticate.''), s0)"
      by (intro refresh_no_token) simp
    with eq [OF a] show ?thesis by (simp add: s0_def)
  qed
  have some: "requests (snd (getValidAccessToken N dr tr s))
        = requests s @ [RefreshTokenGrant (or_else (refresh_token t) [])] \<and>
      (\<forall>e. outcome tr = Inl e \<longrightarrow>
         fst (getValidAccessToken N dr tr s)
           = Inl (Error ''Token refresh failed. Please re-authenticate.'') \<and>
         tokens (snd (getValidAccessToken N dr tr s)) = None) \<and>
      (\<forall>data. outcome tr = Inr data \<longrightarrow>
         (let new = \<lparr>access_token = access_token data,
                     refresh_token = (if truthy (refresh_token data) then refresh_token data
                                      else refresh_token t),
                     expires_in = expires_in data,
                     token_type = token_type data,
                     expires_at = clock s + int (latency tr) + expires_in data * 1000\<rparr>;
              answered = (write_line ''Token expired or about to expire, refreshing...'' s)
                 \<lparr>requests := requests s @ [RefreshTokenGrant (or_else (refresh_token t) [])],
                  clock := clock s + int (latency tr),
                  tokens := Some new\<rparr>
          in (fst (saveTokens N answered) = Inr () \<longrightarrow>
                fst (getValidAccessToken N dr tr s) = Inr (access_token data) \<and>
                tokens (snd (getValidAccessToken N dr tr s)) = Some new) \<and>
             (\<forall>e. fst (saveTokens N answered) = Inl e \<longrightarrow>
                fst (getValidAccessToken N dr tr s)
                  = Inl (Error ''Token refresh failed. Please re-authenticate.'') \<and>
                tokens (snd (getValidAccessToken N dr tr s)) = None)))"
    if h: "tokens s = Some t \<and> clock s \<ge> expires_at t - TOKEN_EXPIRY_BUFFER \<and>
           truthy (refresh_token t)"
  proof -
    from h have a: "tokens s = Some t" "clock s \<ge> expires_at t - TOKEN_EXPIRY_BUFFER"
      and rt: "truthy (refresh_token t)" by simp_all
    note ts0 = t0 [OF a]
    obtain r1 s1 where rf: "refreshAccessToken N tr s0 = (r1, s1)"
      by (cases "refreshAccessToken N tr s0")
    have sn: "snd (getValidAccessToken N dr tr s) = s1"
      using eq [OF a] rf by (cases r1) simp_all
    from refresh_requests [OF ts0, of N tr] rf q0 rt
    have 1: "requests (snd (getValidAccessToken N dr tr s))
        = requests s @ [RefreshTokenGrant (or_else (refresh_token t) [])]"
      by (simp add: sn)
    have 2: "\<forall>e. outcome tr = Inl e \<longrightarrow>
         fst (getValidAccessToken N dr tr s)
           = Inl (Error ''Token refresh failed. Please re-authenticate.'') \<and>
         tokens (snd (getValidAccessToken N dr tr s)) = None"
    proof (intro allI impI)
      fix e
      assume o: "outcome tr = Inl e"
      have "fst (refreshAccessToken N tr s0)
              = Inl (Error ''Token refresh failed. Please re-authenticate.'') \<and>
            tokens (snd (refreshAccessToken N tr s0)) = None"
        by (simp add: refresh_rejected [OF ts0 rt o])
      then show "fst (getValidAccessToken N dr tr s)
           = Inl (Error ''Token refresh failed. Please re-authenticate.'') \<and>
         tokens (snd (getValidAccessToken N dr tr s)) = None"
        by (intro thrown [OF a]) simp_all
    qed
    have 3: "\<forall>data. outcome tr = Inr data \<longrightarrow>
         (let new = \<lparr>access_token = access_token data,
                     refresh_token = (if truthy (refresh_token data) then refresh_token data
                                      else refresh_token t),
                     expires_in = expires_in data,
                     token_type = token_type data,
                     expires_at = clock s + int (latency tr) + expires_in data * 1000\<rparr>;
              answered = (write_line ''Token expired or about to expire, refreshing...'' s)
                 \<lparr>requests := requests s @ [RefreshTokenGrant (or_else (refresh_token t) [])],
                  clock := clock s + int (latency tr),
                  tokens := Some new\<rparr>
          in (fst (saveTokens N answered) = Inr () \<longrightarrow>
                fst (getValidAccessToken N dr tr s) = Inr (access_token data) \<and>
                tokens (snd (getValidAccessToken N dr tr s)) = Some new) \<and>
             (\<forall>e. fst (saveTokens N answered) = Inl e \<longrightarrow>
                fst (getValidAccessToken N dr tr s)
                  = Inl (Error ''Token refresh failed. Please re-authenticate.'') \<and>
                tokens (snd (getValidAccessToken N dr tr s)) = None))"
    proof (intro allI impI)
    fix data
    assume o: "outcome tr = Inr data"
    define new where "new = \<lparr>access_token = access_token data,
                     refresh_token = (if truthy (refresh_token data) then refresh_token data
                                      else refresh_token t),
                     expires_in = expires_in data,
                     token_type = token_type data,
                     expires_at = clock s + int (latency tr) + expires_in data * 1000\<rparr>"
    define answered where "answered = s0
                 \<lparr>requests := requests s @ [RefreshTokenGrant (or_else (refresh_token t) [])],
                  clock := clock s + int (latency tr),
                  tokens := Some new\<rparr>"
    note sv = refresh_saved [OF ts0 rt o, of N, unfolded q0 c0, folded new_def,
        folded answered_def]
    have ok: "fst (getValidAccessToken N dr tr s) = Inr (access_token data) \<and>
              tokens (snd (getValidAccessToken N dr tr s)) = Some new"
      if "fst (saveTokens N answered) = Inr ()"
    proof -
      from sv that have "fst (refreshAccessToken N tr s0) = Inr ()"
        and "tokens (snd (refreshAccessToken N tr s0)) = Some new"
        by blast+
      with rf have "r1 = Inr ()" and "tokens s1 = Some new" by simp_all
      with eq [OF a] rf show ?thesis by (simp add: tokens_field_def new_def)
    qed
    have bad: "fst (getValidAccessToken N dr tr s)
                  = Inl (Error ''Token refresh failed. Please re-authenticate.'') \<and>
               tokens (snd (getValidAccessToken N dr tr s)) = None"
      if "fst (saveTokens N answered) = Inl e" for e
    proof -
      from sv that have "fst (refreshAccessToken N tr s0)
              = Inl (Error ''Token refresh failed. Please re-authenticate.'') \<and>
            tokens (snd (refreshAccessToken N tr s0)) = None"
        by blast
      then show ?thesis by (intro thrown [OF a]) simp_all
    qed
    from ok bad
    show "let new = \<lparr>access_token = access_token data,
                     refresh_token = (if truthy (refresh_token data) then refresh_token data
                                      else refresh_token t),
                     expires_in = expires_in data,
                     token_type = token_type data,
                     expires_at = clock s + int (latency tr) + expires_in data * 1000\<rparr>;
              answered = (write_line ''Token expired or about to expire, refreshing...'' s)
                 \<lparr>requests := requests s @ [RefreshTokenGrant (or_else (refresh_token t) [])],
                  clock := clock s + int (latency tr),
                  tokens := Some new\<rparr>
          in (fst (saveTokens N answered) = Inr () \<longrightarrow>
                fst (getValidAccessToken N dr tr s) = Inr (access_token data) \<and>
                tokens (snd (getValidAccessToken N dr tr s)) = Some new) \<and>
             (\<forall>e. fst (saveTokens N answered) = Inl e \<longrightarrow>
                fst (getValidAccessToken N dr tr s)
                  = Inl (Error ''Token refresh failed. Please re-authenticate.'') \<and>
                tokens (snd (getValidAccessToken N dr tr s)) = None)"
      unfolding Let_def new_def [symmetric] s0_def [symmetric] answered_def [symmetric]
      by blast
    qed
    from 1 2 3 show ?thesis by (intro conjI)
  qed
  from buffer fresh none some show ?thesis by blast
qed

lemma ex_expired:
  "fst (getValidAccessToken example_node network_error (success example_response)
          (example_state\<lparr>tokens := Some (example_tokens\<lparr>expires_at := 999999\<rparr>)\<rparr>))
     = Inr ''access-1''"
  by code_simp

lemma ex_expired_saved:
  "fst (saveTokens example_node
     ((write_line ''Token expired or about to expire, refreshing...''
         (example_state\<lparr>tokens := Some (example_tokens\<lparr>expires_at := 999999\<rparr>)\<rparr>))
      \<lparr>requests := requests (example_state\<lparr>tokens := Some (example_tokens\<lparr>expires_at := 999999\<rparr>)\<rparr>)
          @ [RefreshTokenGrant (or_else (refresh_token (example_tokens\<lparr>expires_at := 999999\<rparr>)) [])],
       clock := clock (example_state\<lparr>tokens := Some (example_tokens\<lparr>expires_at := 999999\<rparr>)\<rparr>)
          + int (latency (success example_response)),
       tokens := Some \<lparr>access_token = access_token example_response,
          refresh_token = (if truthy (refresh_token example_response)
                           then refresh_token example_response
                           else refresh_token (example_tokens\<lparr>expires_at := 999999\<rparr>)),
          expires_in = expires_in example_response,
          token_type = token_type example_response,
          expires_at = clock (example_state\<lparr>tokens := Some (example_tokens\<lparr>expires_at := 999999\<rparr>)\<rparr>)
             + int (latency (success example_response)) + expires_in example_response * 1000\<rparr>\<rparr>))
   = Inr ()"
  by code_simp

theorem C3_refresh_before_return_witness:
  "clock (example_state\<lparr>tokens := Some (example_tokens\<lparr>expires_at := 999999\<rparr>)\<rparr>)
     \<ge> expires_at (example_tokens\<lparr>expires_at := 999999\<rparr>) - TOKEN_EXPIRY_BUFFER \<and>
   truthy (refresh_token (example_tokens\<lparr>expires_at := 999999\<rparr>)) \<and>
   outcome (success example_response) = Inr example_response \<and>
   fst (getValidAccessToken example_node network_error (success example_response)
          (example_state\<lparr>tokens := Some (example_tokens\<lparr>expires_at := 999999\<rparr>)\<rparr>))
     = Inr (access_token example_response) \<and>
   requests (snd (getValidAccessToken example_node network_error (success example_response)
          (example_state\<lparr>tokens := Some (example_tokens\<lparr>expires_at := 999999\<rparr>)\<rparr>)))
     = [RefreshTokenGrant ''refresh-0''] \<and>
   clock (example_state\<lparr>tokens := Some example_tokens\<rparr>)
     < expires_at example_tokens - TOKEN_EXPIRY_BUFFER \<and>
   getValidAccessToken example_node network_error network_error
       (example_state\<lparr>tokens := Some example_tokens\<rparr>)
     = (Inr ''access-0'', example_state\<lparr>tokens := Some example_tokens\<rparr>)"
proof -
  have a: "clock (example_state\<lparr>tokens := Some (example_tokens\<lparr>expires_at := 999999\<rparr>)\<rparr>)
     \<ge> expires_at (example_tokens\<lparr>expires_at := 999999\<rparr>) - TOKEN_EXPIRY_BUFFER"
    by (simp add: example_state_def TOKEN_EXPIRY_BUFFER_def)
  have b: "clock (example_state\<lparr>tokens := Some example_tokens\<rparr>)
     < expires_at example_tokens - TOKEN_EXPIRY_BUFFER"
    by (simp add: example_state_def example_tokens_def TOKEN_EXPIRY_BUFFER_def)
  have ta: "tokens (example_state\<lparr>tokens := Some (example_tokens\<lparr>expires_at := 999999\<rparr>)\<rparr>)
              = Some (example_tokens\<lparr>expires_at := 999999\<rparr>)"
    by simp
  have tb: "tokens (example_state\<lparr>tokens := Some example_tokens\<rparr>) = Some example_tokens"
    by simp
  have rt: "truthy (refresh_token (example_tokens\<lparr>expires_at := 999999\<rparr>))"
    by (simp add: example_tokens_def)
  have o: "outcome (success example_response) = Inr example_response"
    by (simp add: success_def)
  note A = C3_refresh_before_return
      [where s = "example_state\<lparr>tokens := Some (example_tokens\<lparr>expires_at := 999999\<rparr>)\<rparr>"
         and t = "example_tokens\<lparr>expires_at := 999999\<rparr>" and N = example_node
         and dr = network_error and tr = "success example_response", unfolded Let_def]
  note B = C3_refresh_before_return
      [where s = "example_state\<lparr>tokens := Some example_tokens\<rparr>"
         and t = example_tokens and N = example_node
         and dr = network_error and tr = network_error]
  from A ta a rt
  have "requests (snd (getValidAccessToken example_node network_error (success example_response)
          (example_state\<lparr>tokens := Some (example_tokens\<lparr>expires_at := 999999\<rparr>)\<rparr>)))
     = requests (example_state\<lparr>tokens := Some (example_tokens\<lparr>expires_at := 999999\<rparr>)\<rparr>)
        @ [RefreshTokenGrant
             (or_else (refresh_token (example_tokens\<lparr>expires_at := 999999\<rparr>)) [])]"
    by blast
  then have c: "requests (snd (getValidAccessToken example_node network_error
          (success example_response)
          (example_state\<lparr>tokens := Some (example_tokens\<lparr>expires_at := 999999\<rparr>)\<rparr>)))
     = [RefreshTokenGrant ''refresh-0'']"
    by (simp add: example_state_def example_tokens_def)
  from A ta a rt o ex_expired_saved
  have e: "fst (getValidAccessToken example_node network_error (success example_response)
          (example_state\<lparr>tokens := Some (example_tokens\<lparr>expires_at := 999999\<rparr>)\<rparr>))
     = Inr (access_token example_response)"
    by blast
  from B tb b
  have d: "getValidAccessToken example_node network_error network_error
       (example_state\<lparr>tokens := Some example_tokens\<rparr>)
     = (Inr (access_token example_tokens), example_state\<lparr>tokens := Some example_tokens\<rparr>)"
    by blast
  have "access_token example_tokens = ''access-0''"
    by (simp add: example_tokens_def)
  with a b c d e rt o show ?thesis by simp
qed

text \<open>
  C3 as stated fails: the server answers the poll of a device flow with a token set
  that has no refresh token, and \<^verbatim>\<open>pollForToken\<close> stores it. An hour later that token set
  has expired: \<^verbatim>\<open>getValidAccessToken\<close> sends no refresh request, returns no token and
  leaves the expired token set in place.
\<close>

theorem C3_no_refresh_without_refresh_token:
  "tokens (snd (pollForToken example_node (\<lambda>i. success example_response)
                  (example_state\<lparr>deviceCode := Some example_device\<rparr>)))
     = Some \<lparr>access_token = ''access-1'', refresh_token = None, expires_in = 3600,
             token_type = ''Bearer'', expires_at = 4600100\<rparr> \<and>
   clock (sleep 3600000 (snd (pollForToken example_node (\<lambda>i. success example_response)
                  (example_state\<lparr>deviceCode := Some example_device\<rparr>))))
     = 4600100 \<and>
   fst (getValidAccessToken example_node network_error (success example_response)
          (sleep 3600000 (snd (pollForToken example_node (\<lambda>i. success example_response)
                  (example_state\<lparr>deviceCode := Some example_device\<rparr>)))))
     = Inl (Error ''No refresh token available. Please re-authenticate.'') \<and>
   requests (snd (getValidAccessToken example_node network_error (success example_response)
          (sleep 3600000 (snd (pollForToken example_node (\<lambda>i. success example_response)
                  (example_state\<lparr>deviceCode := Some example_device\<rparr>))))))
     = [DeviceCodeGrant ''device-0''] \<and>
   tokens (snd (getValidAccessToken example_node network_error (success example_response)
          (sleep 3600000 (snd (pollForToken example_node (\<lambda>i. success example_response)
                  (example_state\<lparr>deviceCode := Some example_device\<rparr>))))))
     = Some \<lparr>access_token = ''access-1'', refresh_token = None, expires_in = 3600,
             token_type = ''Bearer'', expires_at = 4600100\<rparr>"
  by code_simp

subsection \<open>C1: a failed refresh clears the token set in memory, not on disk\<close>

text \<open>
  After a refresh that the server rejects, or that fails in the network,
  \<^verbatim>\<open>this.tokens\<close> is \<^verbatim>\<open>null\<close>, the error \<^verbatim>\<open>Token refresh failed. Please re-authenticate.\<close>
  is thrown, and the files are what they were: \<^verbatim>\<open>saveTokens\<close>, called with
  \<^verbatim>\<open>this.tokens\<close> already \<^verbatim>\<open>null\<close>, writes nothing.
\<close>

lemma refresh_rejected_keeps_files:
  assumes "tokens s = Some old" and "truthy (refresh_token old)" and "outcome r = Inl e"
  shows "fst (refreshAccessToken N r s)
           = Inl (Error ''Token refresh failed. Please re-authenticate.'') \<and>
         tokens (snd (refreshAccessToken N r s)) = None \<and>
         files (snd (refreshAccessToken N r s)) = files s"
  by (simp add: refresh_rejected [OF assms] write_line_def)

text \<open>
  C1, on an example. The manager holds \<open>example_tokens\<close> and has saved them. The server
  answers the refresh request with \<^verbatim>\<open>invalid_grant\<close>. The call throws the error that asks
  for a new authentication and \<^verbatim>\<open>this.tokens\<close> is \<^verbatim>\<open>null\<close>. The token file, though, still
  holds the encrypted token set that was saved before, and a manager that starts
  afterwards on the same files loads it. In the process that made the call, the next
  \<^verbatim>\<open>getValidAccessToken\<close> starts a device flow: it requests a device code and, with the
  answer, makes the first request of the poll.
\<close>

theorem C1_failed_refresh_keeps_token_file:
  "fst (refreshAccessToken example_node (server_error ''invalid_grant'')
          (snd (saveTokens example_node (example_state\<lparr>tokens := Some example_tokens\<rparr>))))
     = Inl (Error ''Token refresh failed. Please re-authenticate.'') \<and>
   tokens (snd (refreshAccessToken example_node (server_error ''invalid_grant'')
          (snd (saveTokens example_node (example_state\<lparr>tokens := Some example_tokens\<rparr>)))))
     = None \<and>
   files (snd (refreshAccessToken example_node (server_error ''invalid_grant'')
          (snd (saveTokens example_node (example_state\<lparr>tokens := Some example_tokens\<rparr>)))))
         TOKEN_FILE
     = Some (Text ''302d737365636361:30313233343536373839616263646566:6b65792d6f662d6d616368696e652d3030313233343536373839616263646566'') \<and>
   tokens (loadTokens example_node
     ((snd (refreshAccessToken example_node (server_error ''invalid_grant'')
          (snd (saveTokens example_node (example_state\<lparr>tokens := Some example_tokens\<rparr>)))))
      \<lparr>machineKey := None, tokens := None, deviceCode := None\<rparr>))
     = Some example_tokens \<and>
   requests (snd (getValidAccessToken example_node (success example_device) network_error
     (snd (refreshAccessToken example_node (server_error ''invalid_grant'')
          (snd (saveTokens example_node (example_state\<lparr>tokens := Some example_tokens\<rparr>)))))))
     = [RefreshTokenGrant ''refresh-0'', DeviceCodeRequest, DeviceCodeGrant ''device-0'']"
  by code_simp

subsection \<open>C4: the polling loop keeps the device authorization\<close>

lemma poll_failed_save_error:
  assumes "fst (saveTokens N s) = Inl e"
  shows "poll_failed e \<noteq> Error ''Authorization was declined by the user'' \<and>
         poll_failed e \<noteq> Error ''Device code expired. Please try again.'' \<and>
         poll_failed e \<noteq> Error ''Authentication timeout. Please try again.''"
  by (simp add: saveTokens_error [OF assms] Error_def)

text \<open>A run of the loop that gives up on the device flow leaves \<^verbatim>\<open>this.tokens\<close> as it was.\<close>

lemma poll_loop_gives_up:
  "fst (pollForToken_loop N replies attempts s)
      = Inl (Error ''Authorization was declined by the user'') \<or>
   fst (pollForToken_loop N replies attempts s)
      = Inl (Error ''Device code expired. Please try again.'') \<or>
   fst (pollForToken_loop N replies attempts s)
      = Inl (Error ''Authentication timeout. Please try again.'') \<longrightarrow>
   tokens (snd (pollForToken_loop N replies attempts s)) = tokens s"
proof (induction attempts s rule: poll_rounds_induct [where replies = replies])
  case (1 attempts s)
  show ?case
  proof (cases "attempts < MAX_POLL_ATTEMPTS")
    case False
    then show ?thesis by (simp add: loop_timeout)
  next
    case True
    show ?thesis
    proof (cases "deviceCode s")
      case None
      with True show ?thesis by (simp add: loop_no_device)
    next
      case (Some d)
      show ?thesis
      proof (cases "outcome (replies attempts)")
        case (Inr data)
        define s1 where "s1 = s\<lparr>requests := requests s @ [DeviceCodeGrant (device_code d)],
                  clock := clock s + int (latency (replies attempts)),
                  tokens := Some \<lparr>access_token = access_token data,
                     refresh_token = refresh_token data,
                     expires_in = expires_in data,
                     token_type = token_type data,
                     expires_at = clock s + int (latency (replies attempts))
                                    + expires_in data * 1000\<rparr>\<rparr>"
        have eq: "pollForToken_loop N replies attempts s
          = (case saveTokens N s1 of
               (Inl e, s2) \<Rightarrow> (Inl (poll_failed e), s2)
             | (Inr u, s2) \<Rightarrow> (Inr (), write_line ''Authentication successful!'' s2))"
          unfolding s1_def
          by (rule loop_answered [where replies = replies and N = N, OF True Some Inr])
        obtain r2 s2 where sv: "saveTokens N s1 = (r2, s2)" by (cases "saveTokens N s1")
        show ?thesis
        proof (cases r2)
          case (Inl e)
          with sv have "fst (saveTokens N s1) = Inl e" by simp
          from poll_failed_save_error [OF this] eq sv Inl show ?thesis by simp
        next
          case (Inr u)
          with eq sv show ?thesis by simp
        qed
      next
        case (Inl e)
        show ?thesis
        proof (cases "response_error e = Some ''authorization_pending''")
          case False
          with loop_error [where replies = replies and N = N, OF True Some Inl] show ?thesis
            by (simp add: axios_post_frame)
        next
          case pending: True
          from "1" [OF True Some Inl pending]
            loop_pending [where replies = replies and N = N, OF True Some Inl pending]
          show ?thesis
            by (simp add: axios_post_frame sleep_frame)
        qed
      qed
    qed
  qed
qed

lemma DEVICE_FILE_not_TOKEN_FILE: "DEVICE_FILE \<noteq> TOKEN_FILE"
  by (simp add: DEVICE_FILE_def TOKEN_FILE_def)

text \<open>
  C4, as the code has it. \<^verbatim>\<open>pollForToken\<close> never discards the device authorization:
  however the call ends, \<^verbatim>\<open>this.deviceCode\<close> and the device file are what they were
  before it. When it ends with \<^verbatim>\<open>authorization_declined\<close>, with \<^verbatim>\<open>expired_token\<close> or at
  the limit of attempts, \<^verbatim>\<open>this.tokens\<close> is what it was before the call as well, so no
  token set is held afterwards if none was held before.
\<close>

theorem C4_poll_keeps_device_authorization:
  "deviceCode (snd (pollForToken N replies s)) = deviceCode s \<and>
   files (snd (pollForToken N replies s)) DEVICE_FILE = files s DEVICE_FILE \<and>
   (fst (pollForToken N replies s) = Inl (Error ''Authorization was declined by the user'') \<or>
    fst (pollForToken N replies s) = Inl (Error ''Device code expired. Please try again.'') \<or>
    fst (pollForToken N replies s) = Inl (Error ''Authentication timeout. Please try again.'')
    \<longrightarrow> tokens (snd (pollForToken N replies s)) = tokens s)"
  using poll_loop_frame [of N replies 0 s] poll_loop_gives_up [of N replies 0 s]
    DEVICE_FILE_not_TOKEN_FILE
  unfolding pollForToken_def by blast

lemma ex_poll_expired:
  "fst (pollForToken example_node (\<lambda>i. server_error ''expired_token'')
          (example_state\<lparr>deviceCode := Some example_device\<rparr>))
     = Inl (Error ''Device code expired. Please try again.'')"
  by code_simp

theorem C4_poll_keeps_device_authorization_witness:
  "fst (pollForToken example_node (\<lambda>i. server_error ''expired_token'')
          (example_state\<lparr>deviceCode := Some example_device\<rparr>))
     = Inl (Error ''Device code expired. Please try again.'') \<and>
   tokens (snd (pollForToken example_node (\<lambda>i. server_error ''expired_token'')
          (example_state\<lparr>deviceCode := Some example_device\<rparr>)))
     = tokens (example_state\<lparr>deviceCode := Some example_device\<rparr>) \<and>
   deviceCode (snd (pollForToken example_node (\<lambda>i. server_error ''expired_token'')
          (example_state\<lparr>deviceCode := Some example_device\<rparr>)))
     = deviceCode (example_state\<lparr>deviceCode := Some example_device\<rparr>) \<and>
   files (snd (pollForToken example_node (\<lambda>i. server_error ''expired_token'')
          (example_state\<lparr>deviceCode := Some example_device\<rparr>))) DEVICE_FILE
     = files (example_state\<lparr>deviceCode := Some example_device\<rparr>) DEVICE_FILE"
  using ex_poll_expired
    C4_poll_keeps_device_authorization
      [where N = example_node and replies = "\<lambda>i. server_error ''expired_token''"
         and s = "example_state\<lparr>deviceCode := Some example_device\<rparr>"]
  by blast

text \<open>
  C4 as stated fails: the manager holds \<open>example_device\<close> and has saved it, the user
  declines, and after \<^verbatim>\<open>pollForToken\<close> the device authorization is still in memory and
  the device file is still there.
\<close>

theorem C4_device_authorization_not_discarded:
  "fst (pollForToken example_node (\<lambda>i. server_error ''authorization_declined'')
          (snd (saveDeviceCode example_node (example_state\<lparr>deviceCode := Some example_device\<rparr>))))
     = Inl (Error ''Authorization was declined by the user'') \<and>
   deviceCode (snd (pollForToken example_node (\<lambda>i. server_error ''authorization_declined'')
          (snd (saveDeviceCode example_node (example_state\<lparr>deviceCode := Some example_device\<rparr>)))))
     = Some example_device \<and>
   files (snd (pollForToken example_node (\<lambda>i. server_error ''authorization_declined'')
          (snd (saveDeviceCode example_node (example_state\<lparr>deviceCode := Some example_device\<rparr>)))))
       DEVICE_FILE
     = Some (Text ''302d656369766564:30313233343536373839616263646566:6b65792d6f662d6d616368696e652d3030313233343536373839616263646566'')"
  by code_simp

subsection \<open>C5: which failures of a poll are retried\<close>

text \<open>
  Rounds answered with \<^verbatim>\<open>authorization_pending\<close> are retried; the first other failure
  ends the loop with one request sent for each round, and nothing written to the console.
\<close>

lemma poll_loop_stops:
  fixes replies :: "nat \<Rightarrow> token_response reply"
  assumes "deviceCode s = Some d"
    and "attempts + k < MAX_POLL_ATTEMPTS"
    and "\<forall>i. attempts \<le> i \<and> i < attempts + k \<longrightarrow>
           (\<exists>e'. outcome (replies i) = Inl e' \<and>
                 response_error e' = Some ''authorization_pending'')"
    and "outcome (replies (attempts + k)) = Inl e"
    and "response_error e \<noteq> Some ''authorization_pending''"
  shows "fst (pollForToken_loop N replies attempts s) = Inl (poll_failed e) \<and>
         requests (snd (pollForToken_loop N replies attempts s))
           = requests s @ replicate (Suc k) (DeviceCodeGrant (device_code d)) \<and>
         console (snd (pollForToken_loop N replies attempts s)) = console s"
  using assms
proof (induction k arbitrary: attempts s)
  case 0
  then have a: "attempts < MAX_POLL_ATTEMPTS" and o: "outcome (replies attempts) = Inl e"
    by simp_all
  from loop_error [where replies = replies and N = N, OF a "0.prems"(1) o "0.prems"(5)]
  show ?case by (simp add: axios_post_def)
next
  case (Suc k)
  then have a: "attempts < MAX_POLL_ATTEMPTS" by simp
  from Suc.prems(3) obtain e' where o: "outcome (replies attempts) = Inl e'"
    and p: "response_error e' = Some ''authorization_pending''"
    by auto
  define s' where "s' = sleep DEVICE_CODE_POLL_INTERVAL
            (snd (axios_post (DeviceCodeGrant (device_code d)) (replies attempts) s))"
  have eq: "pollForToken_loop N replies attempts s = pollForToken_loop N replies (Suc attempts) s'"
    unfolding s'_def
    by (rule loop_pending [where replies = replies and N = N, OF a Suc.prems(1) o p])
  have d': "deviceCode s' = Some d"
    and q': "requests s' = requests s @ [DeviceCodeGrant (device_code d)]"
    and c': "console s' = console s"
    using Suc.prems(1) by (simp_all add: s'_def sleep_def axios_post_def)
  have b: "Suc attempts + k < MAX_POLL_ATTEMPTS" using Suc.prems(2) by simp
  have pe: "\<forall>i. Suc attempts \<le> i \<and> i < Suc attempts + k \<longrightarrow>
           (\<exists>e'. outcome (replies i) = Inl e' \<and>
                 response_error e' = Some ''authorization_pending'')"
    using Suc.prems(3) by simp
  have oe: "outcome (replies (Suc attempts + k)) = Inl e" using Suc.prems(4) by simp
  from Suc.IH [OF d' b pe oe Suc.prems(5)] eq q' c'
  show ?case by simp
qed

text \<open>When every round is answered with \<^verbatim>\<open>authorization_pending\<close>, the loop times out.\<close>

lemma poll_loop_exhausts:
  fixes replies :: "nat \<Rightarrow> token_response reply"
  assumes "deviceCode s = Some d"
    and "MAX_POLL_ATTEMPTS - attempts = n"
    and "\<forall>i. attempts \<le> i \<and> i < MAX_POLL_ATTEMPTS \<longrightarrow>
           (\<exists>e'. outcome (replies i) = Inl e' \<and>
                 response_error e' = Some ''authorization_pending'')"
  shows "fst (pollForToken_loop N replies attempts s)
           = Inl (Error ''Authentication timeout. Please try again.'') \<and>
         requests (snd (pollForToken_loop N replies attempts s))
           = requests s @ replicate n (DeviceCodeGrant (device_code d))"
  using assms
proof (induction n arbitrary: attempts s)
  case 0
  then have "\<not> attempts < MAX_POLL_ATTEMPTS" by simp
  then show ?case by (simp add: loop_timeout)
next
  case (Suc n)
  then have a: "attempts < MAX_POLL_ATTEMPTS" by simp
  with Suc.prems(3) obtain e' where o: "outcome (replies attempts) = Inl e'"
    and p: "response_error e' = Some ''authorization_pending''"
    by auto
  define s' where "s' = sleep DEVICE_CODE_POLL_INTERVAL
            (snd (axios_post (DeviceCodeGrant (device_code d)) (replies attempts) s))"
  have eq: "pollForToken_loop N replies attempts s = pollForToken_loop N replies (Suc attempts) s'"
    unfolding s'_def
    by (rule loop_pending [where replies = replies and N = N, OF a Suc.prems(1) o p])
  have d': "deviceCode s' = Some d"
    and q': "requests s' = requests s @ [DeviceCodeGrant (device_code d)]"
    using Suc.prems(1) by (simp_all add: s'_def sleep_def axios_post_def)
  have m: "MAX_POLL_ATTEMPTS - Suc attempts = n" using Suc.prems(2) by simp
  have pe: "\<forall>i. Suc attempts \<le> i \<and> i < MAX_POLL_ATTEMPTS \<longrightarrow>
           (\<exists>e'. outcome (replies i) = Inl e' \<and>
                 response_error e' = Some ''authorization_pending'')"
    using Suc.prems(3) by simp
  from Suc.IH [OF d' m pe] eq q'
  show ?case by simp
qed

text \<open>
  C5, as the code has it. During \<^verbatim>\<open>pollForToken\<close> only the answer
  \<^verbatim>\<open>authorization_pending\<close> is retried, up to \<^verbatim>\<open>MAX_POLL_ATTEMPTS\<close> requests, after which the
  call throws the timeout error. Any other failure of a request, a network or transport
  error included, ends the loop where it occurs: after \<open>k\<close> pending rounds and one such
  failure \<open>e\<close>, exactly \<open>k + 1\<close> requests have been sent, the call throws
  \<open>poll_failed e\<close> to its caller (for a network error,
  \<^verbatim>\<open>Token polling failed: \<close> followed by its message), and it has written nothing to the
  console.
\<close>

theorem C5_only_pending_is_retried:
  "deviceCode s = Some d \<longrightarrow>
   (\<forall>k e. k < MAX_POLL_ATTEMPTS \<and>
       (\<forall>i. i < k \<longrightarrow> (\<exists>e'. outcome (replies i) = Inl e' \<and>
                               response_error e' = Some ''authorization_pending'')) \<and>
       outcome (replies k) = Inl e \<and>
       response_error e \<noteq> Some ''authorization_pending''
     \<longrightarrow> fst (pollForToken N replies s) = Inl (poll_failed e) \<and>
         requests (snd (pollForToken N replies s))
           = requests s @ replicate (Suc k) (DeviceCodeGrant (device_code d)) \<and>
         console (snd (pollForToken N replies s)) = console s) \<and>
   ((\<forall>i. i < MAX_POLL_ATTEMPTS \<longrightarrow>
        (\<exists>e'. outcome (replies i) = Inl e' \<and>
              response_error e' = Some ''authorization_pending''))
     \<longrightarrow> fst (pollForToken N replies s)
           = Inl (Error ''Authentication timeout. Please try again.'') \<and>
         requests (snd (pollForToken N replies s))
           = requests s @ replicate MAX_POLL_ATTEMPTS (DeviceCodeGrant (device_code d)))"
proof (intro impI conjI allI)
  fix k e
  assume d: "deviceCode s = Some d"
    and h: "k < MAX_POLL_ATTEMPTS \<and>
       (\<forall>i. i < k \<longrightarrow> (\<exists>e'. outcome (replies i) = Inl e' \<and>
                               response_error e' = Some ''authorization_pending'')) \<and>
       outcome (replies k) = Inl e \<and>
       response_error e \<noteq> Some ''authorization_pending''"
  have "fst (pollForToken_loop N replies 0 s) = Inl (poll_failed e) \<and>
         requests (snd (pollForToken_loop N replies 0 s))
           = requests s @ replicate (Suc k) (DeviceCodeGrant (device_code d)) \<and>
         console (snd (pollForToken_loop N replies 0 s)) = console s"
    using d h by (intro poll_loop_stops) simp_all
  then show "fst (pollForToken N replies s) = Inl (poll_failed e)"
    and "requests (snd (pollForToken N replies s))
           = requests s @ replicate (Suc k) (DeviceCodeGrant (device_code d))"
    and "console (snd (pollForToken N replies s)) = console s"
    by (simp_all add: pollForToken_def)
next
  assume d: "deviceCode s = Some d"
    and h: "\<forall>i. i < MAX_POLL_ATTEMPTS \<longrightarrow>
        (\<exists>e'. outcome (replies i) = Inl e' \<and>
              response_error e' = Some ''authorization_pending'')"
  have "fst (pollForToken_loop N replies 0 s)
           = Inl (Error ''Authentication timeout. Please try again.'') \<and>
         requests (snd (pollForToken_loop N replies 0 s))
           = requests s @ replicate MAX_POLL_ATTEMPTS (DeviceCodeGrant (device_code d))"
    using d h by (intro poll_loop_exhausts) simp_all
  then show "fst (pollForToken N replies s)
           = Inl (Error ''Authentication timeout. Please try again.'')"
    and "requests (snd (pollForToken N replies s))
           = requests s @ replicate MAX_POLL_ATTEMPTS (DeviceCodeGrant (device_code d))"
    by (simp_all add: pollForToken_def)
qed

theorem C5_only_pending_is_retried_witness:
  "deviceCode (example_state\<lparr>deviceCode := Some example_device\<rparr>) = Some example_device \<and>
   fst (pollForToken example_node
          (\<lambda>i. if i < 2 then server_error ''authorization_pending'' else network_error)
          (example_state\<lparr>deviceCode := Some example_device\<rparr>))
     = Inl (Error ''Token polling failed: Network Error'') \<and>
   requests (snd (pollForToken example_node
          (\<lambda>i. if i < 2 then server_error ''authorization_pending'' else network_error)
          (example_state\<lparr>deviceCode := Some example_device\<rparr>)))
     = [DeviceCodeGrant ''device-0'', DeviceCodeGrant ''device-0'', DeviceCodeGrant ''device-0'']"
proof -
  let ?R = "\<lambda>i::nat. if i < 2 then server_error ''authorization_pending''
                     else (network_error :: token_response reply)"
  let ?E = "\<lparr>message = ''Network Error'', code = Some ''ERR_NETWORK'',
             response_error = None, response_error_description = None\<rparr>"
  let ?s = "example_state\<lparr>deviceCode := Some example_device\<rparr>"
  have d: "deviceCode ?s = Some example_device" by simp
  have h: "2 < MAX_POLL_ATTEMPTS \<and>
       (\<forall>i. i < 2 \<longrightarrow> (\<exists>e'. outcome (?R i) = Inl e' \<and>
                               response_error e' = Some ''authorization_pending'')) \<and>
       outcome (?R 2) = Inl ?E \<and>
       response_error ?E \<noteq> Some ''authorization_pending''"
    by (simp add: MAX_POLL_ATTEMPTS_def server_error_def network_error_def)
  note T = C5_only_pending_is_retried
    [where s = ?s and d = example_device and replies = ?R and N = example_node]
  from T d have "\<forall>k e. k < MAX_POLL_ATTEMPTS \<and>
       (\<forall>i. i < k \<longrightarrow> (\<exists>e'. outcome (?R i) = Inl e' \<and>
                               response_error e' = Some ''authorization_pending'')) \<and>
       outcome (?R k) = Inl e \<and>
       response_error e \<noteq> Some ''authorization_pending''
     \<longrightarrow> fst (pollForToken example_node ?R ?s) = Inl (poll_failed e) \<and>
         requests (snd (pollForToken example_node ?R ?s))
           = requests ?s @ replicate (Suc k) (DeviceCodeGrant (device_code example_device)) \<and>
         console (snd (pollForToken example_node ?R ?s)) = console ?s"
    by blast
  from this [rule_format, of 2 ?E, OF h]
  have "fst (pollForToken example_node ?R ?s) = Inl (poll_failed ?E)"
    and "requests (snd (pollForToken example_node ?R ?s))
           = requests ?s @ replicate (Suc 2) (DeviceCodeGrant (device_code example_device))"
    by simp_all
  moreover have "poll_failed ?E = Error ''Token polling failed: Network Error''"
    by (simp add: poll_failed_def)
  moreover have "requests ?s @ replicate (Suc 2) (DeviceCodeGrant (device_code example_device))
    = [DeviceCodeGrant ''device-0'', DeviceCodeGrant ''device-0'', DeviceCodeGrant ''device-0'']"
    by (simp add: example_state_def example_device_def numeral_2_eq_2)
  ultimately show ?thesis using d by simp
qed

text \<open>
  C5 as stated fails: the first request fails in the network and the call throws at once,
  after one request, although the answer to a second request would have been a token set.
\<close>

theorem C5_network_error_ends_poll:
  "fst (pollForToken example_node
          (\<lambda>i. if i = 0 then network_error else success example_response)
          (example_state\<lparr>deviceCode := Some example_device\<rparr>))
     = Inl (Error ''Token polling failed: Network Error'') \<and>
   requests (snd (pollForToken example_node
          (\<lambda>i. if i = 0 then network_error else success example_response)
          (example_state\<lparr>deviceCode := Some example_device\<rparr>)))
     = [DeviceCodeGrant ''device-0''] \<and>
   tokens (snd (pollForToken example_node
          (\<lambda>i. if i = 0 then network_error else success example_response)
          (example_state\<lparr>deviceCode := Some example_device\<rparr>)))
     = None"
  by code_simp

subsection \<open>C6: what \<^verbatim>\<open>initialize\<close> does with the stored files\<close>

lemma decrypt_frame:
  "tokens (snd (decrypt N J b s)) = tokens s \<and>
   deviceCode (snd (decrypt N J b s)) = deviceCode s \<and>
   requests (snd (decrypt N J b s)) = requests s \<and>
   detached (snd (decrypt N J b s)) = detached s \<and>
   dirs (snd (decrypt N J b s)) = dirs s \<and>
   files (snd (decrypt N J b s)) = files s"
proof -
  obtain r0 s0 where k: "getMachineKey N s = (r0, s0)" by (cases "getMachineKey N s")
  have f: "tokens s0 = tokens s \<and> deviceCode s0 = deviceCode s \<and> requests s0 = requests s \<and>
     detached s0 = detached s \<and> dirs s0 = dirs s \<and> files s0 = files s"
    using getMachineKey_frame [of N s] by (simp add: k)
  show ?thesis
  proof (cases r0)
    case (Inl e)
    with k f show ?thesis by (simp add: decrypt_def decrypt_failed_def write_line_def)
  next
    case (Inr key)
    with k f show ?thesis
      by (simp add: decrypt_def decrypt_failed_def write_line_def
            split: sum.splits option.splits)
  qed
qed

lemma load_failed_frame:
  "tokens (snd (load_failed p e s)) = tokens s \<and>
   deviceCode (snd (load_failed p e s)) = deviceCode s \<and>
   requests (snd (load_failed p e s)) = requests s \<and>
   detached (snd (load_failed p e s)) = detached s \<and>
   dirs (snd (load_failed p e s)) = dirs s \<and>
   files (snd (load_failed p e s)) = files s"
  by (simp add: load_failed_def write_line_def)

lemma loadEncryptedData_frame:
  "tokens (snd (loadEncryptedData N J p s)) = tokens s \<and>
   deviceCode (snd (loadEncryptedData N J p s)) = deviceCode s \<and>
   requests (snd (loadEncryptedData N J p s)) = requests s \<and>
   detached (snd (loadEncryptedData N J p s)) = detached s \<and>
   dirs (snd (loadEncryptedData N J p s)) = dirs s \<and>
   files (snd (loadEncryptedData N J p s)) = files s"
proof (cases "readFile p s")
  case (Inl e)
  then show ?thesis by (simp add: loadEncryptedData_def load_failed_frame)
next
  case (Inr content)
  show ?thesis
  proof (cases "parse (json_blob N) content")
    case (Inl m)
    with Inr show ?thesis by (simp add: loadEncryptedData_def load_failed_frame)
  next
    case b: (Inr b)
    obtain r1 s1 where d: "decrypt N J b s = (r1, s1)" by (cases "decrypt N J b s")
    have f: "tokens s1 = tokens s \<and> deviceCode s1 = deviceCode s \<and> requests s1 = requests s \<and>
       detached s1 = detached s \<and> dirs s1 = dirs s \<and> files s1 = files s"
      using decrypt_frame [of N J b s] by (simp add: d)
    show ?thesis
    proof (cases r1)
      case (Inl e)
      with Inr b d f show ?thesis by (simp add: loadEncryptedData_def load_failed_frame)
    next
      case v: (Inr v)
      with Inr b d f show ?thesis by (simp add: loadEncryptedData_def)
    qed
  qed
qed

text \<open>\<^verbatim>\<open>loadTokens\<close> assigns what the file gives, and \<^verbatim>\<open>null\<close> when loading fails.\<close>

lemma loadTokens_result:
  "tokens (loadTokens N s)
     = (case fst (loadEncryptedData N (json_tokens N) TOKEN_FILE s) of
          Inl e \<Rightarrow> None | Inr v \<Rightarrow> v) \<and>
   deviceCode (loadTokens N s) = deviceCode s \<and>
   requests (loadTokens N s) = requests s \<and>
   detached (loadTokens N s) = detached s \<and>
   dirs (loadTokens N s) = dirs s \<and>
   files (loadTokens N s) = files s"
proof -
  obtain r1 s1 where l: "loadEncryptedData N (json_tokens N) TOKEN_FILE s = (r1, s1)"
    by (cases "loadEncryptedData N (json_tokens N) TOKEN_FILE s")
  have f: "deviceCode s1 = deviceCode s \<and> requests s1 = requests s \<and>
       detached s1 = detached s \<and> dirs s1 = dirs s \<and> files s1 = files s"
    using loadEncryptedData_frame [of N "json_tokens N" TOKEN_FILE s] by (simp add: l)
  show ?thesis
  proof (cases r1)
    case (Inl e)
    with l f show ?thesis by (simp add: loadTokens_def write_line_def)
  next
    case (Inr v)
    with l f show ?thesis by (cases v) (simp_all add: loadTokens_def write_line_def)
  qed
qed

lemma loadDeviceCode_result:
  "deviceCode (loadDeviceCode N s)
     = (case fst (loadEncryptedData N (json_device N) DEVICE_FILE s) of
          Inl e \<Rightarrow> None | Inr v \<Rightarrow> v) \<and>
   tokens (loadDeviceCode N s) = tokens s \<and>
   requests (loadDeviceCode N s) = requests s \<and>
   detached (loadDeviceCode N s) = detached s \<and>
   dirs (loadDeviceCode N s) = dirs s \<and>
   files (loadDeviceCode N s) = files s"
proof -
  obtain r1 s1 where l: "loadEncryptedData N (json_device N) DEVICE_FILE s = (r1, s1)"
    by (cases "loadEncryptedData N (json_device N) DEVICE_FILE s")
  have f: "tokens s1 = tokens s \<and> requests s1 = requests s \<and>
       detached s1 = detached s \<and> dirs s1 = dirs s \<and> files s1 = files s"
    using loadEncryptedData_frame [of N "json_device N" DEVICE_FILE s] by (simp add: l)
  show ?thesis
  proof (cases r1)
    case (Inl e)
    with l f show ?thesis by (simp add: loadDeviceCode_def write_line_def)
  next
    case (Inr v)
    with l f show ?thesis by (cases v) (simp_all add: loadDeviceCode_def write_line_def)
  qed
qed

lemma initialize_blocked:
  "files s DATA_DIR \<noteq> None \<Longrightarrow>
   initialize N s
     = (Inl (SystemError ''EEXIST'' ''file already exists'' ''mkdir'' DATA_DIR),
        write_line (''AuthManager initialization failed: ''
          @ message (SystemError ''EEXIST'' ''file already exists'' ''mkdir'' DATA_DIR)) s)"
  by (simp add: initialize_def mkdir_def below_a_file_def ancestors_DATA_DIR)

lemma initialize_done:
  "files s DATA_DIR = None \<Longrightarrow>
   initialize N s
     = (Inr (), write_line ''AuthManager initialized successfully''
                  (loadDeviceCode N (loadTokens N (snd (mkdir DATA_DIR s)))))"
  by (simp add: initialize_def mkdir_def below_a_file_def ancestors_DATA_DIR)

text \<open>What \<^verbatim>\<open>loadTokens\<close> and \<^verbatim>\<open>loadDeviceCode\<close> make of a missing and of a malformed file.\<close>

lemma load_missing:
  "files s p = None \<Longrightarrow>
   (case fst (loadEncryptedData N J p s) of Inl e \<Rightarrow> None | Inr v \<Rightarrow> v) = None"
  by (simp add: loadEncryptedData_def readFile_def load_failed_def SystemError_def)

lemma load_unparsed:
  "files s p = Some (Text t) \<Longrightarrow> parse (json_blob N) t = Inl m \<Longrightarrow>
   (case fst (loadEncryptedData N J p s) of Inl e \<Rightarrow> None | Inr v \<Rightarrow> v) = None"
  by (simp add: loadEncryptedData_def readFile_def load_failed_def SystemError_def Error_def)

text \<open>
  C6, as the code has it. \<^verbatim>\<open>initialize\<close> creates the data directory and fails only if
  that fails. It then loads the token file and the device file: a file that does not
  exist leaves the value \<^verbatim>\<open>null\<close>, and so does a file that cannot be read, parsed or
  decrypted, because \<^verbatim>\<open>loadTokens\<close> and \<^verbatim>\<open>loadDeviceCode\<close> catch the error of
  \<^verbatim>\<open>loadEncryptedData\<close> and assign \<^verbatim>\<open>null\<close>; the call still returns normally. It sends
  no request, starts no poll and writes no file.
\<close>

theorem C6_initialize_tolerates_broken_storage:
  "(fst (initialize N s) = Inr () \<longleftrightarrow> files s DATA_DIR = None) \<and>
   requests (snd (initialize N s)) = requests s \<and>
   detached (snd (initialize N s)) = detached s \<and>
   files (snd (initialize N s)) = files s \<and>
   (files s DATA_DIR = None \<longrightarrow>
      DATA_DIR \<in> dirs (snd (initialize N s)) \<and>
      tokens (snd (initialize N s))
        = (case fst (loadEncryptedData N (json_tokens N) TOKEN_FILE (snd (mkdir DATA_DIR s))) of
             Inl e \<Rightarrow> None | Inr v \<Rightarrow> v) \<and>
      deviceCode (snd (initialize N s))
        = (case fst (loadEncryptedData N (json_device N) DEVICE_FILE
                       (loadTokens N (snd (mkdir DATA_DIR s)))) of
             Inl e \<Rightarrow> None | Inr v \<Rightarrow> v) \<and>
      (files s TOKEN_FILE = None \<longrightarrow> tokens (snd (initialize N s)) = None) \<and>
      (files s DEVICE_FILE = None \<longrightarrow> deviceCode (snd (initialize N s)) = None) \<and>
      (\<forall>t m. files s TOKEN_FILE = Some (Text t) \<and> parse (json_blob N) t = Inl m
         \<longrightarrow> tokens (snd (initialize N s)) = None) \<and>
      (\<forall>t m. files s DEVICE_FILE = Some (Text t) \<and> parse (json_blob N) t = Inl m
         \<longrightarrow> deviceCode (snd (initialize N s)) = None))"
proof (cases "files s DATA_DIR = None")
  case False
  then have "initialize N s
     = (Inl (SystemError ''EEXIST'' ''file already exists'' ''mkdir'' DATA_DIR),
        write_line (''AuthManager initialization failed: ''
          @ message (SystemError ''EEXIST'' ''file already exists'' ''mkdir'' DATA_DIR)) s)"
    by (rule initialize_blocked)
  then have "fst (initialize N s) \<noteq> Inr ()"
    and "requests (snd (initialize N s)) = requests s"
    and "detached (snd (initialize N s)) = detached s"
    and "files (snd (initialize N s)) = files s"
    by (simp_all add: write_line_def)
  with False show ?thesis by blast
next
  case True
  define s1 where "s1 = snd (mkdir DATA_DIR s)"
  define s2 where "s2 = loadTokens N s1"
  define s3 where "s3 = loadDeviceCode N s2"
  have eq: "initialize N s = (Inr (), write_line ''AuthManager initialized successfully'' s3)"
    unfolding s3_def s2_def s1_def using True by (rule initialize_done)
  have m: "dirs s1 = insert DATA_DIR (dirs s) \<and> files s1 = files s \<and>
           requests s1 = requests s \<and> detached s1 = detached s"
    using True by (simp add: s1_def mkdir_def below_a_file_def ancestors_DATA_DIR)
  note t = loadTokens_result [of N s1, folded s2_def]
  note d = loadDeviceCode_result [of N s2, folded s3_def]
  have fs: "files s2 = files s" "files s3 = files s"
    using m t d by simp_all
  have tok: "tokens s3 = (case fst (loadEncryptedData N (json_tokens N) TOKEN_FILE s1) of
             Inl e \<Rightarrow> None | Inr v \<Rightarrow> v)"
    using t d by simp
  have dev: "deviceCode s3 = (case fst (loadEncryptedData N (json_device N) DEVICE_FILE s2) of
             Inl e \<Rightarrow> None | Inr v \<Rightarrow> v)"
    using d by simp
  have ta: "tokens s3 = None" if "files s TOKEN_FILE = None"
  proof -
    from that m have "files s1 TOKEN_FILE = None" by simp
    from load_missing [OF this, where N = N and J = "json_tokens N"] tok show ?thesis by simp
  qed
  have da: "deviceCode s3 = None" if "files s DEVICE_FILE = None"
  proof -
    from that fs have "files s2 DEVICE_FILE = None" by simp
    from load_missing [OF this, where N = N and J = "json_device N"] dev show ?thesis by simp
  qed
  have tb: "tokens s3 = None"
    if "files s TOKEN_FILE = Some (Text t) \<and> parse (json_blob N) t = Inl m" for t m
  proof -
    from that m have "files s1 TOKEN_FILE = Some (Text t)" and "parse (json_blob N) t = Inl m"
      by simp_all
    from load_unparsed [OF this, where J = "json_tokens N"] tok show ?thesis by simp
  qed
  have db: "deviceCode s3 = None"
    if "files s DEVICE_FILE = Some (Text t) \<and> parse (json_blob N) t = Inl m" for t m
  proof -
    from that fs have "files s2 DEVICE_FILE = Some (Text t)" and "parse (json_blob N) t = Inl m"
      by simp_all
    from load_unparsed [OF this, where J = "json_device N"] dev show ?thesis by simp
  qed
  have st: "snd (initialize N s) = write_line ''AuthManager initialized successfully'' s3"
    and ok: "fst (initialize N s) = Inr ()"
    using eq by simp_all
  have fin: "tokens (snd (initialize N s)) = tokens s3"
    "deviceCode (snd (initialize N s)) = deviceCode s3"
    "requests (snd (initialize N s)) = requests s"
    "detached (snd (initialize N s)) = detached s"
    "files (snd (initialize N s)) = files s"
    "dirs (snd (initialize N s)) = insert DATA_DIR (dirs s)"
    using m t d by (simp_all add: st write_line_def)
  show ?thesis
    unfolding fin s1_def [symmetric] s2_def [symmetric]
    using True ok tok dev ta da tb db by blast
qed


lemma ex_initialize_reloads:
  "tokens (snd (initialize example_node
     ((snd (saveTokens example_node (example_state\<lparr>tokens := Some example_tokens\<rparr>)))
      \<lparr>machineKey := None, tokens := None\<rparr>)))
   = Some example_tokens"
  by code_simp

theorem C6_initialize_tolerates_broken_storage_witness:
  "files example_state DATA_DIR = None \<and>
   files example_state TOKEN_FILE = None \<and>
   files example_state DEVICE_FILE = None \<and>
   fst (initialize example_node example_state) = Inr () \<and>
   DATA_DIR \<in> dirs (snd (initialize example_node example_state)) \<and>
   tokens (snd (initialize example_node example_state)) = None \<and>
   deviceCode (snd (initialize example_node example_state)) = None \<and>
   requests (snd (initialize example_node example_state)) = requests example_state \<and>
   detached (snd (initialize example_node example_state)) = detached example_state \<and>
   tokens (snd (initialize example_node
     ((snd (saveTokens example_node (example_state\<lparr>tokens := Some example_tokens\<rparr>)))
      \<lparr>machineKey := None, tokens := None\<rparr>)))
   = Some example_tokens"
proof -
  have a: "files example_state DATA_DIR = None"
    and b: "files example_state TOKEN_FILE = None"
    and c: "files example_state DEVICE_FILE = None"
    by (simp_all add: example_state_def)
  from a b c C6_initialize_tolerates_broken_storage [of example_node example_state]
  have "fst (initialize example_node example_state) = Inr () \<and>
   DATA_DIR \<in> dirs (snd (initialize example_node example_state)) \<and>
   tokens (snd (initialize example_node example_state)) = None \<and>
   deviceCode (snd (initialize example_node example_state)) = None \<and>
   requests (snd (initialize example_node example_state)) = requests example_state \<and>
   detached (snd (initialize example_node example_state)) = detached example_state"
    by blast
  with a b c ex_initialize_reloads show ?thesis by blast
qed

text \<open>
  C6 as stated fails: the token file holds a truncated blob, \<^verbatim>\<open>loadEncryptedData\<close> throws
  on it, and \<^verbatim>\<open>initialize\<close> returns normally with no token set.
\<close>

theorem C6_broken_token_file_not_fatal:
  \<open>fst (loadEncryptedData example_node (json_tokens example_node) TOKEN_FILE
          (example_state\<lparr>files := [TOKEN_FILE \<mapsto> Text ''{"encrypted":"302d7373'']\<rparr>))
     = Inl (Error ''Failed to load encrypted data: Unexpected token in JSON'') \<and>
   fst (initialize example_node
          (example_state\<lparr>files := [TOKEN_FILE \<mapsto> Text ''{"encrypted":"302d7373'']\<rparr>))
     = Inr () \<and>
   tokens (snd (initialize example_node
          (example_state\<lparr>files := [TOKEN_FILE \<mapsto> Text ''{"encrypted":"302d7373'']\<rparr>)))
     = None\<close>
  by code_simp

subsection \<open>C2: no token set held\<close>




text \<open>What the call that starts the poll changes.\<close>

lemma pollForTokenInBackground_called_frame:
  "tokens (pollForTokenInBackground_called s) = tokens s \<and>
   deviceCode (pollForTokenInBackground_called s) = deviceCode s \<and>
   detached (pollForTokenInBackground_called s) = detached s \<and>
   clock (pollForTokenInBackground_called s) = clock s \<and>
   files (pollForTokenInBackground_called s) = files s \<and>
   machineKey (pollForTokenInBackground_called s) = machineKey s \<and>
   requests (pollForTokenInBackground_called s)
     = requests s @ (case deviceCode s of None \<Rightarrow> []
                     | Some d \<Rightarrow> [DeviceCodeGrant (device_code d)]) \<and>
   console (pollForTokenInBackground_called s)
     = console s @ [''[POLL] Starting background token polling'']"
  by (cases "deviceCode s")
     (simp_all add: pollForTokenInBackground_called_def Let_def MAX_POLL_ATTEMPTS_def
        write_line_def)

text \<open>
  The requests of a run of the loop come after those made before it, and the run of
  \<^verbatim>\<open>pollForTokenInBackground\<close> from its call to its completion begins with what the call
  does before it is suspended.
\<close>

lemma poll_loop_requests:
  "\<exists>rest. requests (snd (pollForToken_loop N replies attempts s)) = requests s @ rest"
proof (induction attempts s rule: poll_rounds_induct [where replies = replies])
  case (1 attempts s)
  show ?case
  proof (cases "attempts < MAX_POLL_ATTEMPTS")
    case False
    then show ?thesis by (simp add: loop_timeout)
  next
    case True
    show ?thesis
    proof (cases "deviceCode s")
      case None
      with True show ?thesis by (simp add: loop_no_device)
    next
      case (Some d)
      show ?thesis
      proof (cases "outcome (replies attempts)")
        case (Inr data)
        define s1 where "s1 = s\<lparr>requests := requests s @ [DeviceCodeGrant (device_code d)],
                  clock := clock s + int (latency (replies attempts)),
                  tokens := Some \<lparr>access_token = access_token data,
                     refresh_token = refresh_token data,
                     expires_in = expires_in data,
                     token_type = token_type data,
                     expires_at = clock s + int (latency (replies attempts))
                                    + expires_in data * 1000\<rparr>\<rparr>"
        obtain r2 s2 where sv: "saveTokens N s1 = (r2, s2)" by (cases "saveTokens N s1")
        have "requests s2 = requests s1"
          using saveTokens_frame [of N s1] by (simp add: sv)
        then have fr: "requests s2 = requests s @ [DeviceCodeGrant (device_code d)]"
          by (simp add: s1_def)
        have "snd (pollForToken_loop N replies attempts s) = s2 \<or>
              snd (pollForToken_loop N replies attempts s)
                = write_line ''Authentication successful!'' s2"
          using loop_answered [where replies = replies and N = N, OF True Some Inr] sv
          by (cases r2) (simp_all add: s1_def)
        with fr have "requests (snd (pollForToken_loop N replies attempts s))
                        = requests s @ [DeviceCodeGrant (device_code d)]"
          by (auto simp: write_line_def)
        then show ?thesis by (rule exI)
      next
        case (Inl e)
        show ?thesis
        proof (cases "response_error e = Some ''authorization_pending''")
          case False
          with loop_error [where replies = replies and N = N, OF True Some Inl]
          have "requests (snd (pollForToken_loop N replies attempts s))
                  = requests s @ [DeviceCodeGrant (device_code d)]"
            by (simp add: axios_post_frame)
          then show ?thesis by (rule exI)
        next
          case pending: True
          from "1" [OF True Some Inl pending]
            loop_pending [where replies = replies and N = N, OF True Some Inl pending]
          obtain rest where "requests (snd (pollForToken_loop N replies attempts s))
                  = (requests s @ [DeviceCodeGrant (device_code d)]) @ rest"
            by (auto simp: axios_post_frame sleep_frame)
          then have "requests (snd (pollForToken_loop N replies attempts s))
                  = requests s @ ([DeviceCodeGrant (device_code d)] @ rest)"
            by simp
          then show ?thesis by (rule exI)
        qed
      qed
    qed
  qed
qed

lemma poll_loop_first_request:
  assumes d: "deviceCode s = Some d"
  shows "\<exists>rest. requests (snd (pollForToken N replies s))
                  = requests s @ [DeviceCodeGrant (device_code d)] @ rest"
proof -
  have a: "0 < MAX_POLL_ATTEMPTS" by (simp add: MAX_POLL_ATTEMPTS_def)
  show ?thesis
  proof (cases "outcome (replies 0)")
    case (Inr data)
    define s1 where "s1 = s\<lparr>requests := requests s @ [DeviceCodeGrant (device_code d)],
                  clock := clock s + int (latency (replies 0)),
                  tokens := Some \<lparr>access_token = access_token data,
                     refresh_token = refresh_token data,
                     expires_in = expires_in data,
                     token_type = token_type data,
                     expires_at = clock s + int (latency (replies 0))
                                    + expires_in data * 1000\<rparr>\<rparr>"
    obtain r2 s2 where sv: "saveTokens N s1 = (r2, s2)" by (cases "saveTokens N s1")
    have "requests s2 = requests s1"
      using saveTokens_frame [of N s1] by (simp add: sv)
    then have fr: "requests s2 = requests s @ [DeviceCodeGrant (device_code d)]"
      by (simp add: s1_def)
    have "snd (pollForToken_loop N replies 0 s) = s2 \<or>
          snd (pollForToken_loop N replies 0 s) = write_line ''Authentication successful!'' s2"
      using loop_answered [where replies = replies and N = N, OF a d Inr] sv
      by (cases r2) (simp_all add: s1_def)
    with fr have "requests (snd (pollForToken N replies s))
                    = requests s @ [DeviceCodeGrant (device_code d)] @ []"
      by (auto simp: write_line_def pollForToken_def)
    then show ?thesis by (rule exI)
  next
    case (Inl e)
    show ?thesis
    proof (cases "response_error e = Some ''authorization_pending''")
      case False
      with loop_error [where replies = replies and N = N, OF a d Inl]
      have "requests (snd (pollForToken N replies s))
              = requests s @ [DeviceCodeGrant (device_code d)] @ []"
        by (simp add: axios_post_frame pollForToken_def)
      then show ?thesis by (rule exI)
    next
      case pending: True
      define s' where "s' = sleep DEVICE_CODE_POLL_INTERVAL
            (snd (axios_post (DeviceCodeGrant (device_code d)) (replies 0) s))"
      have eq: "pollForToken N replies s = pollForToken_loop N replies (Suc 0) s'"
        unfolding s'_def pollForToken_def
        by (rule loop_pending [where replies = replies and N = N, OF a d Inl pending])
      have q: "requests s' = requests s @ [DeviceCodeGrant (device_code d)]"
        by (simp add: s'_def axios_post_frame sleep_frame)
      from poll_loop_requests [of N replies "Suc 0" s'] obtain rest
        where "requests (snd (pollForToken_loop N replies (Suc 0) s')) = requests s' @ rest"
        by blast
      with eq q have "requests (snd (pollForToken N replies s))
              = requests s @ [DeviceCodeGrant (device_code d)] @ rest"
        by simp
      then show ?thesis by (rule exI)
    qed
  qed
qed

lemma pollForTokenInBackground_begins:
  assumes d: "deviceCode s = Some d"
  shows "\<exists>rest. requests (pollForTokenInBackground N replies s)
                  = requests (pollForTokenInBackground_called s) @ rest"
proof -
  define s0 where "s0 = write_line ''[POLL] Starting background token polling'' s"
  have d0: "deviceCode s0 = Some d" and q0: "requests s0 = requests s"
    using d by (simp_all add: s0_def write_line_def)
  from poll_loop_first_request [OF d0, of N replies] q0 obtain rest
    where r: "requests (snd (pollForToken N replies s0))
                = requests s @ [DeviceCodeGrant (device_code d)] @ rest"
    by auto
  obtain r1 s1 where p: "pollForToken N replies s0 = (r1, s1)"
    by (cases "pollForToken N replies s0")
  have "requests (pollForTokenInBackground N replies s) = requests s1"
    using p by (cases r1) (simp_all add: pollForTokenInBackground_def s0_def write_line_def)
  with r p have "requests (pollForTokenInBackground N replies s)
                = requests (pollForTokenInBackground_called s) @ rest"
    using pollForTokenInBackground_called_frame [of s] d by simp
  then show ?thesis by (rule exI)
qed




















end
